theory Spec2Isabelle
  imports Complex_Main "HOL-Library.Sublist" "HOL-Library.Char_ord" "HOL-Library.List_Lexorder"
begin

section \<open>Strings\<close>

text \<open>
  Python \<open>str\<close> values are modelled as HOL strings. A HOL character has a code from 0 to
  255 and stands for the Python character with that code point, so the model covers the
  texts written in the first 256 code points (ASCII and the Latin-1 supplement).
  \<open>str.lower\<close>, \<open>str.isalpha\<close>, \<open>str.strip\<close>, \<open>str.split\<close> and the regular-expression
  classes \<open>\w\<close> and \<open>\s\<close> are given for all of these characters as Python 3 has them.
\<close>

text \<open>The upper-case letters: A to Z, and 0xC0 to 0xDE without the multiplication sign
  0xD7.\<close>

definition upper_letters :: string where
  "upper_letters =
     ''ABCDEFGHIJKLMNOPQRSTUVWXYZ'' @
     [CHR 0xC0, CHR 0xC1, CHR 0xC2, CHR 0xC3, CHR 0xC4, CHR 0xC5, CHR 0xC6, CHR 0xC7,
      CHR 0xC8, CHR 0xC9, CHR 0xCA, CHR 0xCB, CHR 0xCC, CHR 0xCD, CHR 0xCE, CHR 0xCF,
      CHR 0xD0, CHR 0xD1, CHR 0xD2, CHR 0xD3, CHR 0xD4, CHR 0xD5, CHR 0xD6, CHR 0xD8,
      CHR 0xD9, CHR 0xDA, CHR 0xDB, CHR 0xDC, CHR 0xDD, CHR 0xDE]"

text \<open>Their lower-case forms, in the same order: a to z, and 0xE0 to 0xFE without the
  division sign 0xF7.\<close>

definition lower_letters :: string where
  "lower_letters =
     ''abcdefghijklmnopqrstuvwxyz'' @
     [CHR 0xE0, CHR 0xE1, CHR 0xE2, CHR 0xE3, CHR 0xE4, CHR 0xE5, CHR 0xE6, CHR 0xE7,
      CHR 0xE8, CHR 0xE9, CHR 0xEA, CHR 0xEB, CHR 0xEC, CHR 0xED, CHR 0xEE, CHR 0xEF,
      CHR 0xF0, CHR 0xF1, CHR 0xF2, CHR 0xF3, CHR 0xF4, CHR 0xF5, CHR 0xF6, CHR 0xF8,
      CHR 0xF9, CHR 0xFA, CHR 0xFB, CHR 0xFC, CHR 0xFD, CHR 0xFE]"

definition lower_char :: "char \<Rightarrow> char" where
  "lower_char c = (case map_of (zip upper_letters lower_letters) c of None \<Rightarrow> c | Some l \<Rightarrow> l)"

text \<open>\<open>str.lower()\<close>.\<close>

definition lower :: "string \<Rightarrow> string" where
  "lower s = map lower_char s"

text \<open>\<open>str.isalpha()\<close> on one character: the letters above and the five letters without
  an upper-case form in this range, the ordinal indicators 0xAA and 0xBA, the micro sign
  0xB5, the sharp s 0xDF and the y with diaeresis 0xFF.\<close>

definition is_alpha :: "char \<Rightarrow> bool" where
  "is_alpha c =
     (c \<in> set (upper_letters @ lower_letters @
                [CHR 0xAA, CHR 0xB5, CHR 0xBA, CHR 0xDF, CHR 0xFF]))"

text \<open>The characters that are numeric and no letter: the digits 0 to 9, the superscripts
  0xB2, 0xB3 and 0xB9, and the fractions 0xBC to 0xBE.\<close>

definition is_digit :: "char \<Rightarrow> bool" where
  "is_digit c =
     (c \<in> set (''0123456789'' @ [CHR 0xB2, CHR 0xB3, CHR 0xB9, CHR 0xBC, CHR 0xBD, CHR 0xBE]))"

text \<open>The regular-expression class \<open>\w\<close> on \<open>str\<close> patterns: the alphanumeric characters
  and the underscore.\<close>

definition is_word_char :: "char \<Rightarrow> bool" where
  "is_word_char c = (is_alpha c \<or> is_digit c \<or> c = CHR ''_'')"

text \<open>White space, as \<open>str.isspace()\<close> has it, which is also what \<open>str.strip()\<close> and
  \<open>str.split()\<close> cut at and what the regular-expression class \<open>\s\<close> matches: the space,
  tab, line feed, vertical tab, form feed, carriage return (0x09 to 0x0D), the four
  separators 0x1C to 0x1F, the next-line control 0x85 and the no-break space 0xA0.\<close>

definition is_space :: "char \<Rightarrow> bool" where
  "is_space c =
     (c \<in> set [CHR '' '', CHR 0x09, CHR 0x0A, CHR 0x0B, CHR 0x0C, CHR 0x0D,
                CHR 0x1C, CHR 0x1D, CHR 0x1E, CHR 0x1F, CHR 0x85, CHR 0xA0])"

text \<open>\<open>str.strip()\<close>.\<close>

definition strip :: "string \<Rightarrow> string" where
  "strip s = rev (dropWhile is_space (rev (dropWhile is_space s)))"

text \<open>\<open>sep.join(xs)\<close>.\<close>

fun join :: "string \<Rightarrow> string list \<Rightarrow> string" where
  "join sep [] = []"
| "join sep [x] = x"
| "join sep (x # y # ys) = x @ sep @ join sep (y # ys)"

text \<open>The maximal runs of characters satisfying \<open>p\<close>, left to right; \<open>cur\<close> is the run
  being read.\<close>

fun runs :: "(char \<Rightarrow> bool) \<Rightarrow> string \<Rightarrow> string \<Rightarrow> string list" where
  "runs p cur [] = (if cur = [] then [] else [cur])"
| "runs p cur (c # cs) =
     (if p c then runs p (cur @ [c]) cs
      else (if cur = [] then [] else [cur]) @ runs p [] cs)"

text \<open>\<open>str.split()\<close> with no argument: the maximal runs of non-blank characters.\<close>

definition split_ws :: "string \<Rightarrow> string list" where
  "split_ws s = runs (\<lambda>c. \<not> is_space c) [] s"

text \<open>\<open>a in b\<close> on strings is contiguous containment, \<^const>\<open>sublist\<close>.\<close>

section \<open>External language resources\<close>

text \<open>
  \<open>NLPProcessor.__init__\<close> loads a spaCy pipeline, the NLTK lemmatizer and stop-word list,
  and a sentence-embedding model. They are third-party, trained artefacts; the model takes
  them as a record of functions and assumes nothing about them unless a theorem says so.
  \<^item> \<open>stop_words\<close>: \<open>set(stopwords.words('english'))\<close>;
  \<^item> \<open>lemmatize\<close>: \<open>WordNetLemmatizer.lemmatize\<close>;
  \<^item> \<open>word_tokenize\<close>: \<open>nltk.tokenize.word_tokenize\<close>;
  \<^item> \<open>ents\<close>: the entities \<open>(ent.text, ent.label_)\<close> of \<open>self.nlp(text).ents\<close>;
  \<^item> \<open>noun_chunks\<close>: \<open>chunk.text\<close> for the chunks of \<open>self.nlp(text).noun_chunks\<close>;
  \<^item> \<open>sents\<close>: \<open>sent.text\<close> for the sentences of \<open>self.nlp(text).sents\<close>;
  \<^item> \<open>encode\<close>: the embedding \<open>self.bert_model.encode\<close> gives one sentence;
  \<^item> \<open>sub_urls\<close>, \<open>sub_emails\<close>: \<open>re.sub(pattern, '', text)\<close> for the URL pattern and
    for \<open>\S+@\S+\<close> of \<open>preprocess_text\<close>.
\<close>

record nlp_resources =
  stop_words :: "string set"
  lemmatize :: "string \<Rightarrow> string"
  word_tokenize :: "string \<Rightarrow> string list"
  ents :: "string \<Rightarrow> (string \<times> string) list"
  noun_chunks :: "string \<Rightarrow> string list"
  sents :: "string \<Rightarrow> string list"
  encode :: "string \<Rightarrow> real list"
  sub_urls :: "string \<Rightarrow> string"
  sub_emails :: "string \<Rightarrow> string"

section \<open>Skill extraction\<close>

text \<open>\<open>self.skill_patterns\<close>: a dict literal, so its categories keep this order.\<close>

definition skill_patterns :: "(string \<times> string list) list" where
  "skill_patterns =
    [(''programming_languages'',
       [''python'', ''java'', ''javascript'', ''c++'', ''c#'', ''ruby'', ''php'', ''swift'',
        ''kotlin'', ''typescript'', ''go'', ''rust'', ''scala'', ''r'', ''matlab'', ''perl'',
        ''vb.net'']),
     (''web_technologies'',
       [''html'', ''css'', ''react'', ''angular'', ''vue'', ''node.js'', ''express'', ''django'',
        ''flask'', ''spring'', ''asp.net'', ''laravel'', ''ruby on rails'', ''jquery'']),
     (''databases'',
       [''mysql'', ''postgresql'', ''mongodb'', ''sqlite'', ''oracle'', ''sql server'',
        ''redis'', ''cassandra'', ''elasticsearch'', ''dynamodb'']),
     (''cloud_platforms'',
       [''aws'', ''azure'', ''gcp'', ''google cloud'', ''heroku'', ''digitalocean'',
        ''docker'', ''kubernetes'', ''terraform'']),
     (''tools'',
       [''git'', ''jenkins'', ''jira'', ''confluence'', ''slack'', ''figma'', ''photoshop'',
        ''illustrator'', ''tableau'', ''power bi'', ''excel''])]"

definition tech_words :: "string list" where
  "tech_words = [''api'', ''framework'', ''library'', ''platform'', ''tool'', ''language'']"

text \<open>The loop over \<open>doc.ents\<close>: an entity labelled ORG, PRODUCT or GPE, longer than two
  characters, whose lower-cased text contains a technology word, is kept as it is written.\<close>

definition entity_skills :: "nlp_resources \<Rightarrow> string \<Rightarrow> string list" where
  "entity_skills nlp txt =
     map fst
       (filter (\<lambda>(ent_text, label).
            label \<in> set [''ORG'', ''PRODUCT'', ''GPE''] \<and> length ent_text > 2 \<and>
            (\<exists>tech_word \<in> set tech_words. sublist tech_word (lower ent_text)))
          (ents nlp txt))"

text \<open>The loop over \<open>doc.noun_chunks\<close>: a lower-cased, stripped chunk of at most three words
  that is no stop word and has a letter.\<close>

definition chunk_skills :: "nlp_resources \<Rightarrow> string \<Rightarrow> string list" where
  "chunk_skills nlp txt =
     filter (\<lambda>chunk_text.
          length (split_ws chunk_text) \<le> 3 \<and> chunk_text \<notin> stop_words nlp \<and>
          (\<exists>c \<in> set chunk_text. is_alpha c))
       (map (\<lambda>chunk. strip (lower chunk)) (noun_chunks nlp txt))"

text \<open>
  \<open>extract_skills\<close> returns a dict from category to list: the catalog's categories in their
  order, each with the catalog skills that occur in the lower-cased text, then \<open>'other'\<close>.
  Python leaves the order of \<open>list(set(additional_skills))\<close> open; the model keeps the first
  occurrences in order, and no theorem below depends on that order.
\<close>

definition extract_skills :: "nlp_resources \<Rightarrow> string \<Rightarrow> (string \<times> string list) list" where
  "extract_skills nlp txt =
     (let text_lower = lower txt;
          extracted_skills =
            map (\<lambda>(category, skills).
                   (category, filter (\<lambda>skill. sublist skill text_lower) skills))
              skill_patterns;
          additional_skills = entity_skills nlp txt @ chunk_skills nlp txt
      in extracted_skills @ [(''other'', remdups additional_skills)])"

text \<open>\<open>d[category]\<close> on the dict \<open>extract_skills\<close> returns, for a category it has.\<close>

definition skills_in :: "(string \<times> string list) list \<Rightarrow> string \<Rightarrow> string list" where
  "skills_in d category = (case map_of d category of None \<Rightarrow> [] | Some skills \<Rightarrow> skills)"

section \<open>Text preprocessing\<close>

text \<open>\<open>re.sub(r'[^\w\s\.\,\-\+\#]', ' ', text)\<close>: every character outside the class becomes
  a space.\<close>

definition sub_special :: "string \<Rightarrow> string" where
  "sub_special s =
     map (\<lambda>c. if is_word_char c \<or> is_space c \<or> c \<in> set ''.,-+#'' then c else CHR '' '') s"

definition preprocess_text :: "nlp_resources \<Rightarrow> string \<Rightarrow> string" where
  "preprocess_text nlp txt =
     (let t1 = lower txt;
          t2 = sub_emails nlp (sub_urls nlp t1);
          t3 = sub_special t2;
          tokens = word_tokenize nlp t3;
          tokens = map (lemmatize nlp)
                     (filter (\<lambda>token. token \<notin> stop_words nlp \<and> length token > 2) tokens)
      in join '' '' tokens)"

section \<open>The numeric libraries\<close>

text \<open>
  \<open>TfidfVectorizer\<close>, \<open>cosine_similarity\<close> (scikit-learn) and \<open>np.mean\<close> (NumPy) are
  third-party code. The definitions of this section follow their documented behaviour for
  the arguments the program passes, with floating-point numbers read as real numbers and
  NaN as an absent value. The exceptions they raise are values of \<open>error\<close>.
\<close>

datatype error = ValueError

text \<open>The vectorizer's default token pattern \<open>\b\w\w+\b\<close>: the maximal runs of word
  characters that are at least two characters long.\<close>

definition tokenize :: "string \<Rightarrow> string list" where
  "tokenize doc = filter (\<lambda>t. length t \<ge> 2) (runs is_word_char [] doc)"

text \<open>The \<open>n\<close>-grams of a token list, joined by spaces, at the positions
  \<open>range(len(tokens) - n + 1)\<close>.\<close>

definition ngrams :: "nat \<Rightarrow> string list \<Rightarrow> string list" where
  "ngrams n toks = map (\<lambda>i. join '' '' (take n (drop i toks))) [0..<length toks + 1 - n]"

text \<open>\<open>ngram_range=(1, max_n)\<close> with \<open>max_n > 1\<close>: the tokens, then the 2-grams, and so on
  for \<open>n\<close> in \<open>range(2, min(max_n + 1, len(tokens) + 1))\<close>.\<close>

definition word_ngrams :: "nat \<Rightarrow> string list \<Rightarrow> string list" where
  "word_ngrams max_n toks =
     toks @ concat (map (\<lambda>n. ngrams n toks) [2..<min (max_n + 1) (length toks + 1)])"

text \<open>The analyzer: lower-case, tokenize, build the n-grams.\<close>

definition analyze :: "nat \<Rightarrow> string \<Rightarrow> string list" where
  "analyze max_n doc = word_ngrams max_n (tokenize (lower doc))"

text \<open>
  \<open>max_features\<close>: when the sorted vocabulary is longer than the limit, the \<open>limit\<close> terms
  of highest total count over the corpus stay, in vocabulary order. (Which of several
  terms of equal count stay is the library sort's choice; the model takes the earlier ones.)
\<close>

definition limit_features :: "nat \<Rightarrow> string list list \<Rightarrow> string list \<Rightarrow> string list" where
  "limit_features limit docs vocabulary =
     (if length vocabulary > limit
      then let tfs = (\<lambda>t. sum_list (map (\<lambda>d. count_list d t) docs));
               top = take limit (sort_key (\<lambda>t. - int (tfs t)) vocabulary)
           in filter (\<lambda>t. t \<in> set top) vocabulary
      else vocabulary)"

text \<open>Smoothed inverse document frequency: \<open>ln((1 + n) / (1 + df(t))) + 1\<close>.\<close>

definition idf :: "string list list \<Rightarrow> string \<Rightarrow> real" where
  "idf docs t =
     ln (real (1 + length docs) / real (1 + length (filter (\<lambda>d. t \<in> set d) docs))) + 1"

definition dot :: "real list \<Rightarrow> real list \<Rightarrow> real" where
  "dot a b = sum_list (map (\<lambda>(x, y). x * y) (zip a b))"

definition l2_norm :: "real list \<Rightarrow> real" where
  "l2_norm v = sqrt (dot v v)"

text \<open>Row normalisation: a row of norm zero is left as it is.\<close>

definition l2_normalize :: "real list \<Rightarrow> real list" where
  "l2_normalize v = (if l2_norm v = 0 then v else map (\<lambda>x. x / l2_norm v) v)"

text \<open>The tf-idf row of one analysed document over the feature names.\<close>

definition tfidf_row :: "string list list \<Rightarrow> string list \<Rightarrow> string list \<Rightarrow> real list" where
  "tfidf_row docs feature_names d =
     l2_normalize (map (\<lambda>t. real (count_list d t) * idf docs t) feature_names)"

text \<open>
  \<open>TfidfVectorizer(max_features=..., ngram_range=(1, max_n)).fit_transform(raw_docs)\<close>:
  the feature names (\<open>get_feature_names_out()\<close>) and the matrix, one row per document.
  The library raises \<open>ValueError\<close> for a \<open>max_features\<close> that is not positive and for an
  empty vocabulary ("empty vocabulary; perhaps the documents only contain stop words").
\<close>

definition fit_transform ::
  "nat \<Rightarrow> nat \<Rightarrow> string list \<Rightarrow> error + (string list \<times> real list list)" where
  "fit_transform max_features max_n raw_docs =
     (let docs = map (analyze max_n) raw_docs;
          vocabulary = sort (remdups (concat docs))
      in if max_features = 0 \<or> vocabulary = [] then Inl ValueError
         else let feature_names = limit_features max_features docs vocabulary
              in Inr (feature_names, map (tfidf_row docs feature_names) docs))"

text \<open>\<open>cosine_similarity\<close> of two rows: both are normalised, a zero row staying zero,
  and multiplied.\<close>

definition cosine_similarity :: "real list \<Rightarrow> real list \<Rightarrow> real" where
  "cosine_similarity a b = dot (l2_normalize a) (l2_normalize b)"

text \<open>\<open>np.mean(embeddings, axis=0)\<close>: the mean of each column. Over no rows NumPy divides
  zero by zero and returns NaN, here \<open>None\<close>.\<close>

definition np_mean :: "real list list \<Rightarrow> real list option" where
  "np_mean vs =
     (if vs = [] then None
      else Some (map (\<lambda>col. sum_list col / real (length vs)) (transpose vs)))"

text \<open>\<open>cosine_similarity([a], [b])\<close> validates its arguments first and raises
  \<open>ValueError\<close> when one of them holds NaN.\<close>

definition cosine_similarity_checked ::
  "real list option \<Rightarrow> real list option \<Rightarrow> error + real" where
  "cosine_similarity_checked a b =
     (case a of None \<Rightarrow> Inl ValueError
      | Some x \<Rightarrow> (case b of None \<Rightarrow> Inl ValueError | Some y \<Rightarrow> Inr (cosine_similarity x y)))"

section \<open>Similarity of two texts\<close>

record matching_term =
  mterm :: string
  resume_score :: real
  jd_score :: real
  combined_score :: real

text \<open>The result dict of \<open>calculate_tfidf_similarity\<close>; the fitted vectorizer it also holds
  is represented by its feature names.\<close>

record tfidf_result =
  similarity_score :: real
  matching_terms :: "matching_term list"
  vectorizer :: "string list"
  resume_vector :: "real list"
  jd_vector :: "real list"

text \<open>Python's \<open>list.sort(key=..., reverse=True)\<close> is stable, as \<^const>\<open>sort_key\<close> on the
  negated key is.\<close>

definition calculate_tfidf_similarity ::
  "nlp_resources \<Rightarrow> string \<Rightarrow> string \<Rightarrow> error + tfidf_result" where
  "calculate_tfidf_similarity nlp resume_text jd_text =
     (let resume_processed = preprocess_text nlp resume_text;
          jd_processed = preprocess_text nlp jd_text
      in case fit_transform 1000 2 [resume_processed, jd_processed] of
           Inl e \<Rightarrow> Inl e
         | Inr (feature_names, tfidf_matrix) \<Rightarrow>
             (let resume_scores = tfidf_matrix ! 0;
                  jd_scores = tfidf_matrix ! 1;
                  matching =
                    map (\<lambda>(t, r, j).
                           \<lparr>mterm = t, resume_score = r, jd_score = j, combined_score = r * j\<rparr>)
                      (filter (\<lambda>(t, r, j). r > 0 \<and> j > 0)
                         (zip feature_names (zip resume_scores jd_scores)))
              in Inr \<lparr>similarity_score = cosine_similarity resume_scores jd_scores,
                      matching_terms = take 20 (sort_key (\<lambda>m. - combined_score m) matching),
                      vectorizer = feature_names,
                      resume_vector = resume_scores,
                      jd_vector = jd_scores\<rparr>))"

record sentence_similarity =
  resume_sentence :: string
  best_match :: string
  similarity :: real

record bert_result =
  document_similarity :: real
  sentence_similarities :: "sentence_similarity list"
  resume_embeddings :: "real list list"
  jd_embeddings :: "real list list"

text \<open>The sentences kept for embedding: those whose stripped text is longer than ten
  characters.\<close>

definition long_sentences :: "nlp_resources \<Rightarrow> string \<Rightarrow> string list" where
  "long_sentences nlp txt = filter (\<lambda>sent. length (strip sent) > 10) (sents nlp txt)"

text \<open>The inner loop over the job description's sentences, from \<open>max_sim = 0\<close> and
  \<open>best_match = ""\<close>; a later sentence replaces the best one only when strictly closer.\<close>

definition find_best_match :: "real list \<Rightarrow> (string \<times> real list) list \<Rightarrow> real \<times> string" where
  "find_best_match resume_embedding jd =
     foldl (\<lambda>(max_sim, best) (jd_sent, jd_embedding).
              let sim = cosine_similarity resume_embedding jd_embedding
              in if sim > max_sim then (sim, jd_sent) else (max_sim, best))
       (0, []) jd"

definition calculate_bert_similarity ::
  "nlp_resources \<Rightarrow> string \<Rightarrow> string \<Rightarrow> error + bert_result" where
  "calculate_bert_similarity nlp resume_text jd_text =
     (let resume_sentences = long_sentences nlp resume_text;
          jd_sentences = long_sentences nlp jd_text;
          resume_embs = map (encode nlp) resume_sentences;
          jd_embs = map (encode nlp) jd_sentences;
          resume_doc_embedding = np_mean resume_embs;
          jd_doc_embedding = np_mean jd_embs
      in case cosine_similarity_checked resume_doc_embedding jd_doc_embedding of
           Inl e \<Rightarrow> Inl e
         | Inr doc_similarity \<Rightarrow>
             Inr \<lparr>document_similarity = doc_similarity,
                  sentence_similarities =
                    map (\<lambda>(resume_sent, resume_embedding).
                           let (max_sim, best) =
                                 find_best_match resume_embedding (zip jd_sentences jd_embs)
                           in \<lparr>resume_sentence = resume_sent, best_match = best,
                               similarity = max_sim\<rparr>)
                      (zip resume_sentences resume_embs),
                  resume_embeddings = resume_embs,
                  jd_embeddings = jd_embs\<rparr>)"

section \<open>Keyword extraction\<close>

text \<open>A keyword dict \<open>{'keyword': k, 'score': s}\<close> is the pair \<open>(k, s)\<close>.\<close>

definition extract_keywords ::
  "nlp_resources \<Rightarrow> string \<Rightarrow> nat \<Rightarrow> error + (string \<times> real) list" where
  "extract_keywords nlp txt top_k =
     (let processed_text = preprocess_text nlp txt
      in case fit_transform (top_k * 2) 3 [processed_text] of
           Inl e \<Rightarrow> Inl e
         | Inr (feature_names, tfidf_matrix) \<Rightarrow>
             (let tfidf_scores = tfidf_matrix ! 0;
                  keywords = filter (\<lambda>(k, s). s > 0) (zip feature_names tfidf_scores)
              in Inr (take top_k (sort_key (\<lambda>(k, s). - s) keywords))))"

section \<open>The resume document\<close>

text \<open>
  \<open>resume_data\<close> is the dict the text extractors return. Its key \<open>'text'\<close> is always there;
  \<open>'metadata'\<close> and \<open>'structured_content'\<close> are read with \<open>.get\<close> or tested with \<open>in\<close>, so
  they are optional, as are \<open>'formatting_issues'\<close> inside the metadata and \<open>'paragraphs'\<close>
  inside the structured content (\<open>None\<close> is the absent key). The keys the scorer never
  reads are left out.
\<close>

record para_dict =
  para_text :: string
  style :: "string option"

record structured_content_dict =
  paragraphs :: "para_dict list option"

record metadata_dict =
  formatting_issues :: "string list option"

record resume_data =
  doc_text :: string
  metadata :: "metadata_dict option"
  structured_content :: "structured_content_dict option"

section \<open>The score calculator\<close>

text \<open>
  Every sub-score is a dict with a key \<open>'score'\<close> and keys of its own. The key
  \<open>'matched_count'\<close> of the keyword and the skill dict, \<open>'metadata'\<close> of the formatting dict
  and the result's \<open>'missing_skills'\<close> and \<open>'missing_keywords'\<close> carry a prefix here,
  since a field name stands for one record only.
\<close>

record score_data =
  score :: real

record keyword_score_data = score_data +
  matched_keywords :: "string list"
  missing_keywords :: "string list"
  total_jd_keywords :: nat
  keyword_matched_count :: nat

record skill_score_data = score_data +
  matched_skills :: "string list"
  missing_skills :: "string list"
  resume_skills_by_category :: "(string \<times> string list) list"
  jd_skills_by_category :: "(string \<times> string list) list"
  total_jd_skills :: nat
  skill_matched_count :: nat

record semantic_score_data = score_data +
  tfidf_similarity :: real
  bert_similarity :: real
  top_matching_terms :: "matching_term list"

record experience_score_data = score_data +
  details :: "string option"
  experience_paragraphs_count :: "nat option"
  relevance_score :: "real option"

record formatting_score_data = score_data +
  issues :: "string list"
  formatting_metadata :: metadata_dict

text \<open>\<open>self.weights\<close>.\<close>

definition weights :: "(string \<times> real) list" where
  "weights =
     [(''keyword_match'', 0.30),
      (''skill_match'', 0.25),
      (''semantic_similarity'', 0.20),
      (''experience_relevance'', 0.15),
      (''formatting_quality'', 0.10)]"

text \<open>\<open>self.weights[k]\<close>, for the five keys the program uses.\<close>

definition weight :: "string \<Rightarrow> real" where
  "weight k = (case map_of weights k of None \<Rightarrow> 0 | Some w \<Rightarrow> w)"

text \<open>\<open>list(s)\<close> of a set of strings: Python leaves the order open, the model sorts.\<close>

definition list_of_set :: "string set \<Rightarrow> string list" where
  "list_of_set s = sorted_list_of_set s"

definition calculate_keyword_score ::
  "nlp_resources \<Rightarrow> string \<Rightarrow> string \<Rightarrow> error + keyword_score_data" where
  "calculate_keyword_score nlp resume_text jd_text =
     (case extract_keywords nlp jd_text 30 of
        Inl e \<Rightarrow> Inl e
      | Inr jd_keywords \<Rightarrow>
          (case extract_keywords nlp resume_text 50 of
             Inl e \<Rightarrow> Inl e
           | Inr resume_keywords \<Rightarrow>
               (let jd_keyword_set = set (map (\<lambda>kw. lower (fst kw)) jd_keywords);
                    resume_keyword_set = set (map (\<lambda>kw. lower (fst kw)) resume_keywords);
                    matched = jd_keyword_set \<inter> resume_keyword_set;
                    missing = jd_keyword_set - resume_keyword_set
                in Inr \<lparr>score =
                          (if card jd_keyword_set > 0
                           then min (real (card matched) / real (card jd_keyword_set) * 100) 100
                           else 0),
                        matched_keywords = list_of_set matched,
                        missing_keywords = list_of_set missing,
                        total_jd_keywords = card jd_keyword_set,
                        keyword_matched_count = card matched\<rparr>)))"

text \<open>The flattening loop: every skill of every category, lower-cased, into one set.\<close>

definition all_skills :: "(string \<times> string list) list \<Rightarrow> string set" where
  "all_skills skills_by_category = set (map lower (concat (map snd skills_by_category)))"

definition calculate_skill_score ::
  "nlp_resources \<Rightarrow> string \<Rightarrow> string \<Rightarrow> skill_score_data" where
  "calculate_skill_score nlp resume_text jd_text =
     (let resume_skills = extract_skills nlp resume_text;
          jd_skills = extract_skills nlp jd_text;
          resume_all_skills = all_skills resume_skills;
          jd_all_skills = all_skills jd_skills;
          matched = resume_all_skills \<inter> jd_all_skills;
          missing = jd_all_skills - resume_all_skills
      in \<lparr>score =
             (if card jd_all_skills > 0
              then min (real (card matched) / real (card jd_all_skills) * 100) 100
              else 50),
           matched_skills = list_of_set matched,
           missing_skills = list_of_set missing,
           resume_skills_by_category = resume_skills,
           jd_skills_by_category = jd_skills,
           total_jd_skills = card jd_all_skills,
           skill_matched_count = card matched\<rparr>)"

definition calculate_semantic_score ::
  "nlp_resources \<Rightarrow> string \<Rightarrow> string \<Rightarrow> error + semantic_score_data" where
  "calculate_semantic_score nlp resume_text jd_text =
     (case calculate_tfidf_similarity nlp resume_text jd_text of
        Inl e \<Rightarrow> Inl e
      | Inr tfidf_result \<Rightarrow>
          (case calculate_bert_similarity nlp resume_text jd_text of
             Inl e \<Rightarrow> Inl e
           | Inr bert_result \<Rightarrow>
               (let tfidf_score = similarity_score tfidf_result * 100;
                    bert_score = document_similarity bert_result * 100
                in Inr \<lparr>score = tfidf_score * 0.4 + bert_score * 0.6,
                        tfidf_similarity = tfidf_score,
                        bert_similarity = bert_score,
                        top_matching_terms = take 10 (matching_terms tfidf_result)\<rparr>)))"

text \<open>\<open>resume_data.get('structured_content', {})\<close>: the empty dict has no key.\<close>

definition get_structured_content :: "resume_data \<Rightarrow> structured_content_dict" where
  "get_structured_content d =
     (case structured_content d of None \<Rightarrow> \<lparr>paragraphs = None\<rparr> | Some c \<Rightarrow> c)"

definition experience_keywords :: "string list" where
  "experience_keywords =
     [''experience'', ''worked'', ''developed'', ''managed'', ''led'', ''responsible'',
      ''achieved'']"

text \<open>
  The argument is \<open>resume_data.get('structured_content', {})\<close>. The first test,
  \<open>not structured_content or 'paragraphs' not in structured_content\<close>, holds exactly when
  the dict has no key \<open>'paragraphs'\<close>: an empty dict has none.
\<close>

definition calculate_experience_score ::
  "nlp_resources \<Rightarrow> structured_content_dict \<Rightarrow> string \<Rightarrow> error + experience_score_data" where
  "calculate_experience_score nlp content jd_text =
     (case paragraphs content of
        None \<Rightarrow>
          Inr \<lparr>score = 30, details = Some ''Unable to analyze experience structure'',
               experience_paragraphs_count = None, relevance_score = None\<rparr>
      | Some paras \<Rightarrow>
          (let experience_paragraphs =
                 map para_text
                   (filter (\<lambda>para. \<exists>keyword \<in> set experience_keywords.
                                     sublist keyword (lower (para_text para)))
                      paras)
           in if experience_paragraphs = []
              then Inr \<lparr>score = 20, details = Some ''No clear experience section found'',
                        experience_paragraphs_count = None, relevance_score = None\<rparr>
              else (case calculate_bert_similarity nlp (join '' '' experience_paragraphs) jd_text of
                      Inl e \<Rightarrow> Inl e
                    | Inr sim \<Rightarrow>
                        Inr \<lparr>score = document_similarity sim * 100, details = None,
                             experience_paragraphs_count = Some (length experience_paragraphs),
                             relevance_score = Some (document_similarity sim)\<rparr>)))"

text \<open>The formatting score is a Python \<open>int\<close>; the deductions are made on integers.\<close>

definition calculate_formatting_score :: "resume_data \<Rightarrow> formatting_score_data" where
  "calculate_formatting_score d =
     (let meta = (case metadata d of None \<Rightarrow> \<lparr>formatting_issues = None\<rparr> | Some m \<Rightarrow> m);
          (score1, issues1) =
             (case formatting_issues meta of
                None \<Rightarrow> (100 :: int, [])
              | Some reported \<Rightarrow>
                  if reported \<noteq> [] then (100 - int (length reported) * 10, reported)
                  else (100, []));
          text_length = length (doc_text d);
          (score2, issues2) =
             (if text_length < 500 then (score1 - 20, issues1 @ [''Resume appears too short''])
              else if text_length > 5000
                   then (score1 - 10, issues1 @ [''Resume might be too long''])
                   else (score1, issues1));
          (score3, issues3) =
             (case structured_content d of
                None \<Rightarrow> (score2, issues2)
              | Some structured \<Rightarrow>
                  if length (case paragraphs structured of None \<Rightarrow> [] | Some ps \<Rightarrow> ps) < 3
                  then (score2 - 15, issues2 @ [''Lacks proper paragraph structure''])
                  else (score2, issues2))
      in \<lparr>score = of_int (max score3 0), issues = issues3, formatting_metadata = meta\<rparr>)"

text \<open>
  \<open>keyword_data.get('missing_keywords', [])\<close>, \<open>skill_data.get('missing_skills', [])\<close> and
  \<open>formatting_data.get('issues', [])\<close> read keys that these dicts always have.
\<close>

definition generate_suggestions ::
  "keyword_score_data \<Rightarrow> skill_score_data \<Rightarrow> semantic_score_data \<Rightarrow>
   experience_score_data \<Rightarrow> formatting_score_data \<Rightarrow> string list" where
  "generate_suggestions keyword_data skill_data semantic_data experience_data formatting_data =
     (let s1 = (if score keyword_data < 60
                then (let missing_kw = missing_keywords keyword_data
                      in if missing_kw \<noteq> []
                         then [''Add these important keywords: '' @
                                 join '', '' (take 5 missing_kw)]
                         else [])
                else []);
          s2 = s1 @ (if score skill_data < 70
                then (let missing = missing_skills skill_data
                      in if missing \<noteq> []
                         then [''Consider adding these skills: '' @
                                 join '', '' (take 5 missing)]
                         else [])
                else []);
          s3 = s2 @ (if score semantic_data < 50
                then [''Improve content relevance by using more job-specific language'']
                else []);
          s4 = s3 @ (if score experience_data < 60
                then [''Highlight more relevant work experience and achievements'']
                else []);
          s5 = s4 @ (if score formatting_data < 80
                then map (\<lambda>issue. ''Fix formatting: '' @ issue) (issues formatting_data)
                else [])
      in if s5 = []
         then [''Great job! Your resume shows good alignment with the job requirements.'']
         else s5)"

text \<open>Python's \<open>round(x, 1)\<close>: to the nearest tenth, a tie going to the even one.\<close>

definition round_half_even :: "real \<Rightarrow> int" where
  "round_half_even x =
     (let f = \<lfloor>x\<rfloor>; d = x - of_int f
      in if d < 1 / 2 then f else if d > 1 / 2 then f + 1 else if even f then f else f + 1)"

definition round1 :: "real \<Rightarrow> real" where
  "round1 x = of_int (round_half_even (x * 10)) / 10"

record breakdown_dict =
  keyword_match :: keyword_score_data
  skill_match :: skill_score_data
  semantic_similarity :: semantic_score_data
  experience_relevance :: experience_score_data
  formatting_quality :: formatting_score_data

record ats_result =
  total_score :: real
  breakdown :: breakdown_dict
  suggestions :: "string list"
  result_missing_skills :: "string list"
  result_missing_keywords :: "string list"

text \<open>The weighted sum of \<open>calculate_ats_score\<close>, before rounding.\<close>

definition weighted_total :: "breakdown_dict \<Rightarrow> real" where
  "weighted_total b =
     score (keyword_match b) * weight ''keyword_match'' +
     score (skill_match b) * weight ''skill_match'' +
     score (semantic_similarity b) * weight ''semantic_similarity'' +
     score (experience_relevance b) * weight ''experience_relevance'' +
     score (formatting_quality b) * weight ''formatting_quality''"

definition calculate_ats_score :: "nlp_resources \<Rightarrow> resume_data \<Rightarrow> string \<Rightarrow> error + ats_result" where
  "calculate_ats_score nlp d jd_text =
     (let resume_text = doc_text d
      in case calculate_keyword_score nlp resume_text jd_text of
           Inl e \<Rightarrow> Inl e
         | Inr keyword_score_data \<Rightarrow>
        (let skill_score_data = calculate_skill_score nlp resume_text jd_text
         in case calculate_semantic_score nlp resume_text jd_text of
              Inl e \<Rightarrow> Inl e
            | Inr semantic_score_data \<Rightarrow>
           (case calculate_experience_score nlp (get_structured_content d) jd_text of
              Inl e \<Rightarrow> Inl e
            | Inr experience_score_data \<Rightarrow>
               (let formatting_score_data = calculate_formatting_score d;
                    b = \<lparr>keyword_match = keyword_score_data,
                         skill_match = skill_score_data,
                         semantic_similarity = semantic_score_data,
                         experience_relevance = experience_score_data,
                         formatting_quality = formatting_score_data\<rparr>
                in Inr \<lparr>total_score = round1 (weighted_total b),
                        breakdown = b,
                        suggestions =
                          generate_suggestions keyword_score_data skill_score_data
                            semantic_score_data experience_score_data formatting_score_data,
                        result_missing_skills = missing_skills skill_score_data,
                        result_missing_keywords = missing_keywords keyword_score_data\<rparr>))))"

text \<open>The document \<open>api_analyze\<close> (views.py) builds from the text it is sent:
  \<open>{'text': resume_text, 'metadata': {}}\<close>.\<close>

definition api_resume_data :: "string \<Rightarrow> resume_data" where
  "api_resume_data resume_text =
     \<lparr>doc_text = resume_text, metadata = Some \<lparr>formatting_issues = None\<rparr>,
      structured_content = None\<rparr>"

section \<open>A small instance of the language resources\<close>

text \<open>
  An instance on which the definitions can be run: blank-separated tokens, no
  lemmatisation, no entities and no noun chunks, a non-empty text as one sentence, and a
  one-dimensional embedding that tells short sentences from long ones. It stands in for
  the resources the program loads and is not them.
\<close>

definition simple_nlp :: nlp_resources where
  "simple_nlp =
     \<lparr>stop_words = {''the'', ''and'', ''for''},
      lemmatize = (\<lambda>w. w),
      word_tokenize = split_ws,
      ents = (\<lambda>t. []),
      noun_chunks = (\<lambda>t. []),
      sents = (\<lambda>t. if t = [] then [] else [t]),
      encode = (\<lambda>s. [if length s < 20 then - 1 else 1]),
      sub_urls = (\<lambda>t. t),
      sub_emails = (\<lambda>t. t)\<rparr>"

section \<open>The formatting score as the specification words it\<close>

text \<open>
  The specification's reading of the formatting score, to be compared with
  \<^const>\<open>calculate_formatting_score\<close>: 100, less 10 for each reported issue, less 20 for a
  text under 500 characters or 10 for one over 5000, less 15 for fewer than three
  structured paragraphs, a missing paragraph representation counting as none; clamped to
  the range from 0 to 100.
\<close>

definition formatting_score_spec :: "resume_data \<Rightarrow> int" where
  "formatting_score_spec d =
     (let reported =
            (case metadata d of None \<Rightarrow> []
             | Some m \<Rightarrow> (case formatting_issues m of None \<Rightarrow> [] | Some fi \<Rightarrow> fi));
          paras =
            (case structured_content d of None \<Rightarrow> []
             | Some c \<Rightarrow> (case paragraphs c of None \<Rightarrow> [] | Some ps \<Rightarrow> ps))
      in max 0 (min 100
           (100 - 10 * int (length reported)
              - (if length (doc_text d) < 500 then 20
                 else if length (doc_text d) > 5000 then 10 else 0)
              - (if length paras < 3 then 15 else 0))))"

section \<open>Evaluation rules\<close>

lemmas str_simps =
  lower_def lower_char_def upper_letters_def lower_letters_def is_alpha_def is_digit_def
  is_word_char_def is_space_def

lemmas bert_eval =
  calculate_bert_similarity_def long_sentences_def simple_nlp_def strip_def is_space_def
  np_mean_def cosine_similarity_checked_def cosine_similarity_def l2_normalize_def l2_norm_def
  dot_def find_best_match_def Let_def

lemma sublist_single: "sublist [x] ys \<longleftrightarrow> x \<in> set ys"
  by (induction ys) (auto simp add: sublist_Cons_right)

lemma catalog_programming:
  "skills_in (extract_skills nlp txt) ''programming_languages'' =
     filter (\<lambda>skill. sublist skill (lower txt))
       (skills_in skill_patterns ''programming_languages'')"
  by (simp add: skills_in_def extract_skills_def skill_patterns_def Let_def)

section \<open>Suggestions\<close>

text \<open>
  C2. The suggestions come in the order keyword, skill, semantic, experience, formatting.
  The keyword suggestion is made when the keyword score is below 60 and a keyword is
  missing, the skill suggestion when the skill score is below 70 and a skill is missing,
  the semantic one below 50, the experience one below 60, and one suggestion per
  formatting issue when the formatting score is below 80. When none of these is made the
  list is the single affirmation, so the list is never empty. A score at its threshold
  or above (a keyword score of exactly 60, say) brings no suggestion of its kind.
\<close>

theorem generate_suggestions_order:
  "generate_suggestions kd sd md ed fd =
     (let wanted =
        (if score kd < 60 \<and> missing_keywords kd \<noteq> []
         then [''Add these important keywords: '' @ join '', '' (take 5 (missing_keywords kd))]
         else []) @
        (if score sd < 70 \<and> missing_skills sd \<noteq> []
         then [''Consider adding these skills: '' @ join '', '' (take 5 (missing_skills sd))]
         else []) @
        (if score md < 50
         then [''Improve content relevance by using more job-specific language'']
         else []) @
        (if score ed < 60
         then [''Highlight more relevant work experience and achievements'']
         else []) @
        (if score fd < 80 then map (\<lambda>issue. ''Fix formatting: '' @ issue) (issues fd) else [])
      in if wanted = []
         then [''Great job! Your resume shows good alignment with the job requirements.'']
         else wanted)
   \<and> generate_suggestions kd sd md ed fd \<noteq> []
   \<and> (score kd \<ge> 60 \<longrightarrow>
        (\<forall>s \<in> set (generate_suggestions kd sd md ed fd). \<not> prefix ''Add these'' s))
   \<and> (score sd \<ge> 70 \<longrightarrow>
        (\<forall>s \<in> set (generate_suggestions kd sd md ed fd). \<not> prefix ''Consider'' s))
   \<and> (score md \<ge> 50 \<longrightarrow>
        (\<forall>s \<in> set (generate_suggestions kd sd md ed fd). \<not> prefix ''Improve'' s))
   \<and> (score ed \<ge> 60 \<longrightarrow>
        (\<forall>s \<in> set (generate_suggestions kd sd md ed fd). \<not> prefix ''Highlight'' s))
   \<and> (score fd \<ge> 80 \<longrightarrow>
        (\<forall>s \<in> set (generate_suggestions kd sd md ed fd). \<not> prefix ''Fix formatting'' s))"
  by (auto simp add: generate_suggestions_def Let_def)

text \<open>At the thresholds 60, 70, 50, 60 and 80 nothing fires, although a keyword and a
  skill are missing and an issue is recorded; one step below, everything fires, in order.\<close>

theorem generate_suggestions_order_witness:
  "generate_suggestions
     \<lparr>score = 60, matched_keywords = [], missing_keywords = [''compiler''],
      total_jd_keywords = 1, keyword_matched_count = 0\<rparr>
     \<lparr>score = 70, matched_skills = [], missing_skills = [''rust''],
      resume_skills_by_category = [], jd_skills_by_category = [],
      total_jd_skills = 1, skill_matched_count = 0\<rparr>
     \<lparr>score = 50, tfidf_similarity = 50, bert_similarity = 50, top_matching_terms = []\<rparr>
     \<lparr>score = 60, details = None, experience_paragraphs_count = Some 1,
      relevance_score = Some (6 / 10)\<rparr>
     \<lparr>score = 80, issues = [''Resume appears too short''],
      formatting_metadata = \<lparr>formatting_issues = None\<rparr>\<rparr>
   = [''Great job! Your resume shows good alignment with the job requirements.'']
   \<and> generate_suggestions
     \<lparr>score = 59, matched_keywords = [], missing_keywords = [''compiler'', ''parser''],
      total_jd_keywords = 2, keyword_matched_count = 0\<rparr>
     \<lparr>score = 69, matched_skills = [], missing_skills = [''rust''],
      resume_skills_by_category = [], jd_skills_by_category = [],
      total_jd_skills = 1, skill_matched_count = 0\<rparr>
     \<lparr>score = 49, tfidf_similarity = 49, bert_similarity = 49, top_matching_terms = []\<rparr>
     \<lparr>score = 59, details = None, experience_paragraphs_count = Some 1,
      relevance_score = Some (59 / 100)\<rparr>
     \<lparr>score = 79, issues = [''Resume appears too short''],
      formatting_metadata = \<lparr>formatting_issues = None\<rparr>\<rparr>
   = [''Add these important keywords: compiler, parser'',
      ''Consider adding these skills: rust'',
      ''Improve content relevance by using more job-specific language'',
      ''Highlight more relevant work experience and achievements'',
      ''Fix formatting: Resume appears too short'']"
  using generate_suggestions_order
    [of "\<lparr>score = 60, matched_keywords = [], missing_keywords = [''compiler''],
          total_jd_keywords = 1, keyword_matched_count = 0\<rparr>"
        "\<lparr>score = 70, matched_skills = [], missing_skills = [''rust''],
          resume_skills_by_category = [], jd_skills_by_category = [],
          total_jd_skills = 1, skill_matched_count = 0\<rparr>"
        "\<lparr>score = 50, tfidf_similarity = 50, bert_similarity = 50, top_matching_terms = []\<rparr>"
        "\<lparr>score = 60, details = None, experience_paragraphs_count = Some 1,
          relevance_score = Some (6 / 10)\<rparr>"
        "\<lparr>score = 80, issues = [''Resume appears too short''],
          formatting_metadata = \<lparr>formatting_issues = None\<rparr>\<rparr>"]
    generate_suggestions_order
    [of "\<lparr>score = 59, matched_keywords = [], missing_keywords = [''compiler'', ''parser''],
          total_jd_keywords = 2, keyword_matched_count = 0\<rparr>"
        "\<lparr>score = 69, matched_skills = [], missing_skills = [''rust''],
          resume_skills_by_category = [], jd_skills_by_category = [],
          total_jd_skills = 1, skill_matched_count = 0\<rparr>"
        "\<lparr>score = 49, tfidf_similarity = 49, bert_similarity = 49, top_matching_terms = []\<rparr>"
        "\<lparr>score = 59, details = None, experience_paragraphs_count = Some 1,
          relevance_score = Some (59 / 100)\<rparr>"
        "\<lparr>score = 79, issues = [''Resume appears too short''],
          formatting_metadata = \<lparr>formatting_issues = None\<rparr>\<rparr>"]
  by simp

section \<open>Formatting quality\<close>

lemma formatting_score_bounds:
  "0 \<le> score (calculate_formatting_score d) \<and> score (calculate_formatting_score d) \<le> 100"
  by (auto simp add: calculate_formatting_score_def Let_def split: option.splits)

text \<open>
  C4, as the code has it. The formatting score is 100, less 10 for each formatting issue
  the metadata reports, less 20 for a text under 500 characters or 10 for one over 5000,
  less 15 when a structured content is present and has fewer than three paragraphs (a
  structured content without a paragraph list counts as having none), and never below 0;
  so it lies between 0 and 100. A document with no structured content at all loses
  nothing for its paragraphs, and no error arises.
\<close>

theorem formatting_score_amended:
  "score (calculate_formatting_score d) =
     of_int (max 0
       (100
          - 10 * int (length (case metadata d of None \<Rightarrow> []
                              | Some m \<Rightarrow>
                                  (case formatting_issues m of None \<Rightarrow> [] | Some fi \<Rightarrow> fi)))
          - (if length (doc_text d) < 500 then 20
             else if length (doc_text d) > 5000 then 10 else 0)
          - (case structured_content d of None \<Rightarrow> 0
             | Some c \<Rightarrow>
                 if length (case paragraphs c of None \<Rightarrow> [] | Some ps \<Rightarrow> ps) < 3
                 then 15 else 0)))
   \<and> 0 \<le> score (calculate_formatting_score d)
   \<and> score (calculate_formatting_score d) \<le> 100"
  by (auto simp add: calculate_formatting_score_def Let_def split: option.splits)

theorem formatting_score_amended_witness:
  "score (calculate_formatting_score
      \<lparr>doc_text = ''short'',
       metadata = Some \<lparr>formatting_issues = Some [''Page 1 has extraction issues'']\<rparr>,
       structured_content = Some \<lparr>paragraphs = None\<rparr>\<rparr>) = 55
   \<and> score (calculate_formatting_score
      \<lparr>doc_text = ''short'',
       metadata = Some \<lparr>formatting_issues = Some [''Page 1 has extraction issues'']\<rparr>,
       structured_content = None\<rparr>) = 70"
  using formatting_score_amended
    [of "\<lparr>doc_text = ''short'',
          metadata = Some \<lparr>formatting_issues = Some [''Page 1 has extraction issues'']\<rparr>,
          structured_content = Some \<lparr>paragraphs = None\<rparr>\<rparr>"]
    formatting_score_amended
    [of "\<lparr>doc_text = ''short'',
          metadata = Some \<lparr>formatting_issues = Some [''Page 1 has extraction issues'']\<rparr>,
          structured_content = None\<rparr>"]
  by simp

text \<open>
  C4 as stated fails: a text of 600 characters with no metadata and no structured content
  scores 100, where the reading that counts the missing paragraphs as fewer than three
  gives 85.
\<close>

theorem formatting_score_counterexample:
  "score (calculate_formatting_score
       \<lparr>doc_text = replicate 600 CHR ''a'', metadata = None, structured_content = None\<rparr>)
     = 100
   \<and> formatting_score_spec
       \<lparr>doc_text = replicate 600 CHR ''a'', metadata = None, structured_content = None\<rparr>
     = 85"
  by (simp add: calculate_formatting_score_def formatting_score_spec_def)

section \<open>Experience relevance\<close>

text \<open>
  C5, as the code has it. When the document has no structured content, or its structured
  content has no paragraph list, the experience score is 30 with the details
  "Unable to analyze experience structure". When there is a paragraph list, the
  paragraphs whose lower-cased text contains one of the indicator words are selected; if
  none is selected, which includes an empty paragraph list, the score is 20 with the
  details "No clear experience section found"; otherwise the score is 100 times the
  document similarity of the selected paragraphs, joined by spaces, with the job
  description, and an error of that computation is passed on.
\<close>

theorem experience_score_cases:
  "(structured_content d = None \<longrightarrow> paragraphs (get_structured_content d) = None)
   \<and> (paragraphs c = None \<longrightarrow>
        calculate_experience_score nlp c jd =
          Inr \<lparr>score = 30, details = Some ''Unable to analyze experience structure'',
               experience_paragraphs_count = None, relevance_score = None\<rparr>)
   \<and> (\<forall>paras. paragraphs c = Some paras \<longrightarrow>
        (let selected =
               filter (\<lambda>para. \<exists>keyword \<in> set [''experience'', ''worked'', ''developed'',
                                      ''managed'', ''led'', ''responsible'', ''achieved''].
                                 sublist keyword (lower (para_text para))) paras
         in calculate_experience_score nlp c jd =
            (if selected = []
             then Inr \<lparr>score = 20, details = Some ''No clear experience section found'',
                      experience_paragraphs_count = None, relevance_score = None\<rparr>
             else (case calculate_bert_similarity nlp (join '' '' (map para_text selected)) jd of
                     Inl e \<Rightarrow> Inl e
                   | Inr sim \<Rightarrow>
                       Inr \<lparr>score = 100 * document_similarity sim, details = None,
                            experience_paragraphs_count = Some (length selected),
                            relevance_score = Some (document_similarity sim)\<rparr>))))"
  by (simp add: calculate_experience_score_def get_structured_content_def
        experience_keywords_def Let_def mult.commute split: sum.splits)

theorem experience_score_cases_witness:
  "calculate_experience_score simple_nlp
     (get_structured_content
        \<lparr>doc_text = ''I developed compilers for ten years'', metadata = None,
         structured_content = None\<rparr>)
     ''Compiler engineer wanted now''
   = Inr \<lparr>score = 30, details = Some ''Unable to analyze experience structure'',
          experience_paragraphs_count = None, relevance_score = None\<rparr>
   \<and> calculate_experience_score simple_nlp
     \<lparr>paragraphs = Some [\<lparr>para_text = ''Hobbies: chess'', style = None\<rparr>]\<rparr>
     ''Compiler engineer wanted now''
   = Inr \<lparr>score = 20, details = Some ''No clear experience section found'',
          experience_paragraphs_count = None, relevance_score = None\<rparr>
   \<and> calculate_experience_score simple_nlp
     \<lparr>paragraphs = Some [\<lparr>para_text = ''Hobbies: chess'', style = None\<rparr>,
                         \<lparr>para_text = ''I developed compilers for ten years'', style = None\<rparr>]\<rparr>
     ''Compiler engineer wanted now''
   = Inr \<lparr>score = 100, details = None, experience_paragraphs_count = Some 1,
          relevance_score = Some 1\<rparr>"
proof -
  have no_word:
    "\<not> (\<exists>keyword \<in> set [''experience'', ''worked'', ''developed'', ''managed'', ''led'',
                             ''responsible'', ''achieved''].
            sublist keyword (lower ''Hobbies: chess''))"
    by code_simp
  have a_word:
    "\<exists>keyword \<in> set [''experience'', ''worked'', ''developed'', ''managed'', ''led'',
                         ''responsible'', ''achieved''].
        sublist keyword (lower ''I developed compilers for ten years'')"
    by code_simp
  have sim:
    "calculate_bert_similarity simple_nlp ''I developed compilers for ten years''
       ''Compiler engineer wanted now'' =
     Inr \<lparr>document_similarity = 1,
          sentence_similarities =
            [\<lparr>resume_sentence = ''I developed compilers for ten years'',
              best_match = ''Compiler engineer wanted now'', similarity = 1\<rparr>],
          resume_embeddings = [[1]], jd_embeddings = [[1]]\<rparr>"
    by (simp add: bert_eval)
  have c1: "calculate_experience_score simple_nlp
     (get_structured_content
        \<lparr>doc_text = ''I developed compilers for ten years'', metadata = None,
         structured_content = None\<rparr>)
     ''Compiler engineer wanted now''
   = Inr \<lparr>score = 30, details = Some ''Unable to analyze experience structure'',
          experience_paragraphs_count = None, relevance_score = None\<rparr>"
    using experience_score_cases
      [of "\<lparr>doc_text = ''I developed compilers for ten years'', metadata = None,
            structured_content = None\<rparr>"
          "get_structured_content
             \<lparr>doc_text = ''I developed compilers for ten years'', metadata = None,
              structured_content = None\<rparr>"
          simple_nlp "''Compiler engineer wanted now''"]
    by simp
  have c2: "calculate_experience_score simple_nlp
     \<lparr>paragraphs = Some [\<lparr>para_text = ''Hobbies: chess'', style = None\<rparr>]\<rparr>
     ''Compiler engineer wanted now''
   = Inr \<lparr>score = 20, details = Some ''No clear experience section found'',
          experience_paragraphs_count = None, relevance_score = None\<rparr>"
    using no_word experience_score_cases
      [of "\<lparr>doc_text = ''Hobbies: chess'', metadata = None, structured_content = None\<rparr>"
          "\<lparr>paragraphs = Some [\<lparr>para_text = ''Hobbies: chess'', style = None\<rparr>]\<rparr>"
          simple_nlp "''Compiler engineer wanted now''"]
    by simp
  have c3: "calculate_experience_score simple_nlp
     \<lparr>paragraphs = Some [\<lparr>para_text = ''Hobbies: chess'', style = None\<rparr>,
                         \<lparr>para_text = ''I developed compilers for ten years'', style = None\<rparr>]\<rparr>
     ''Compiler engineer wanted now''
   = Inr \<lparr>score = 100, details = None, experience_paragraphs_count = Some 1,
          relevance_score = Some 1\<rparr>"
    using no_word a_word sim experience_score_cases
      [of "\<lparr>doc_text = ''Hobbies: chess'', metadata = None, structured_content = None\<rparr>"
          "\<lparr>paragraphs = Some [\<lparr>para_text = ''Hobbies: chess'', style = None\<rparr>,
                         \<lparr>para_text = ''I developed compilers for ten years'', style = None\<rparr>]\<rparr>"
          simple_nlp "''Compiler engineer wanted now''"]
    by simp
  from c1 c2 c3 show ?thesis by simp
qed

text \<open>
  C5 as stated fails for a document whose structured content has an empty paragraph list,
  as the extractor gives for a file with no non-blank paragraph: no structured paragraph
  is available, and the score is 20, not 30.
\<close>

theorem experience_score_counterexample:
  "calculate_experience_score simple_nlp
     (get_structured_content
        \<lparr>doc_text = ''I developed compilers for ten years'', metadata = None,
         structured_content = Some \<lparr>paragraphs = Some []\<rparr>\<rparr>)
     ''Compiler engineer wanted now''
   = Inr \<lparr>score = 20, details = Some ''No clear experience section found'',
          experience_paragraphs_count = None, relevance_score = None\<rparr>"
  by (simp add: calculate_experience_score_def get_structured_content_def)

section \<open>Catalog skills are found by containment\<close>

text \<open>
  C10. A catalog skill is reported when it occurs anywhere in the lower-cased text, with
  no test for word boundaries: \<open>extract_skills\<close> reports the skill "r" in the category
  \<open>programming_languages\<close> exactly when the lower-cased text contains the character r, as
  in "developer", and "go" exactly when it contains "go", as in "Django".
\<close>

theorem skills_r_go:
  "(''r'' \<in> set (skills_in (extract_skills nlp txt) ''programming_languages'')
      \<longleftrightarrow> CHR ''r'' \<in> set (lower txt))
   \<and> (''go'' \<in> set (skills_in (extract_skills nlp txt) ''programming_languages'')
      \<longleftrightarrow> sublist ''go'' (lower txt))"
  unfolding catalog_programming
  by (simp add: skills_in_def skill_patterns_def sublist_single)

theorem skills_r_go_witness:
  "''r'' \<in> set (skills_in (extract_skills simple_nlp ''Developer'') ''programming_languages'')
   \<and> ''go'' \<in> set (skills_in (extract_skills simple_nlp ''Django'') ''programming_languages'')
   \<and> ''r'' \<notin> set (skills_in (extract_skills simple_nlp ''Django'') ''programming_languages'')"
  using skills_r_go [of simple_nlp "''Developer''"] skills_r_go [of simple_nlp "''Django''"]
  by (simp add: str_simps sublist_Cons_right)

section \<open>Facts about the numeric libraries\<close>

lemma sort_remdups_Nil: "sort (remdups xs) = [] \<longleftrightarrow> xs = []"
proof -
  have "set (sort (remdups xs)) = set xs" by simp
  then show ?thesis by (metis set_empty)
qed

lemma sort_remdups_append_commute: "sort (remdups (a @ b)) = sort (remdups (b @ a))"
proof -
  have "sort (remdups (a @ b)) = sorted_list_of_set (set (a @ b))"
    by (simp only: sorted_list_of_set_sort_remdups)
  also have "set (a @ b) = set (b @ a)" by auto
  also have "sorted_list_of_set (set (b @ a)) = sort (remdups (b @ a))"
    by (simp only: sorted_list_of_set_sort_remdups)
  finally show ?thesis .
qed

lemma fit_transform_error:
  "fit_transform m n raw_docs = Inl ValueError \<longleftrightarrow>
     m = 0 \<or> concat (map (analyze n) raw_docs) = []"
  unfolding fit_transform_def Let_def sort_remdups_Nil by (simp split: if_splits)

lemma fit_transform_ok:
  "m \<noteq> 0 \<Longrightarrow> concat (map (analyze n) raw_docs) \<noteq> [] \<Longrightarrow>
   fit_transform m n raw_docs =
     (let docs = map (analyze n) raw_docs;
          feature_names = limit_features m docs (sort (remdups (concat docs)))
      in Inr (feature_names, map (tfidf_row docs feature_names) docs))"
  unfolding fit_transform_def Let_def sort_remdups_Nil by simp

lemma dot_commute: "dot a b = dot b a"
proof (induction a arbitrary: b)
  case Nil
  then show ?case by (simp add: dot_def)
next
  case (Cons x xs)
  then show ?case by (cases b) (simp_all add: dot_def mult.commute)
qed

lemma cosine_similarity_commute: "cosine_similarity a b = cosine_similarity b a"
  by (simp add: cosine_similarity_def dot_commute)

lemma dot_zero_left: "dot (replicate n 0) v = 0"
proof (induction n arbitrary: v)
  case 0
  then show ?case by (simp add: dot_def)
next
  case (Suc n)
  then show ?case by (cases v) (simp_all add: dot_def)
qed

lemma l2_normalize_zero: "l2_normalize (replicate n 0) = replicate n 0"
  by (simp add: l2_normalize_def l2_norm_def dot_zero_left)

lemma cosine_zero_left: "cosine_similarity (replicate n 0) v = 0"
  by (simp add: cosine_similarity_def l2_normalize_zero dot_zero_left)

lemma cosine_zero_right: "cosine_similarity v (replicate n 0) = 0"
  by (simp add: cosine_similarity_commute [of v] cosine_zero_left)

lemma tfidf_row_empty: "tfidf_row docs feature_names [] = replicate (length feature_names) 0"
  by (simp add: tfidf_row_def map_replicate_const l2_normalize_zero)

lemma idf_swap: "idf [a, b] t = idf [b, a] t"
  by (simp add: idf_def)

lemma tfidf_row_swap: "tfidf_row [a, b] fn d = tfidf_row [b, a] fn d"
  by (simp add: tfidf_row_def idf_swap)

lemma limit_features_swap: "limit_features m [a, b] v = limit_features m [b, a] v"
  by (simp add: limit_features_def add.commute)

lemma no_matching_left:
  "filter (\<lambda>(t, r, j). r > 0 \<and> j > 0) (zip fn (zip (replicate n (0::real)) js)) = []"
proof -
  have "r = 0" if "(t, r, j) \<in> set (zip fn (zip (replicate n (0::real)) js))" for t r j
  proof -
    from that have "(r, j) \<in> set (zip (replicate n (0::real)) js)" by (rule set_zip_rightD)
    then have "r \<in> set (replicate n (0::real))" by (rule set_zip_leftD)
    then show ?thesis by simp
  qed
  then show ?thesis by (fastforce simp add: filter_empty_conv)
qed

lemma no_matching_right:
  "filter (\<lambda>(t, r, j). r > 0 \<and> j > 0) (zip fn (zip rs (replicate n (0::real)))) = []"
proof -
  have "j = 0" if "(t, r, j) \<in> set (zip fn (zip rs (replicate n (0::real))))" for t r j
  proof -
    from that have "(r, j) \<in> set (zip rs (replicate n (0::real)))" by (rule set_zip_rightD)
    then have "j \<in> set (replicate n (0::real))" by (rule set_zip_rightD)
    then show ?thesis by simp
  qed
  then show ?thesis by (fastforce simp add: filter_empty_conv)
qed

lemma tfidf_similarity_ok:
  "analyze 2 (preprocess_text nlp a) @ analyze 2 (preprocess_text nlp b) \<noteq> [] \<Longrightarrow>
   calculate_tfidf_similarity nlp a b =
     (let ta = analyze 2 (preprocess_text nlp a);
          tb = analyze 2 (preprocess_text nlp b);
          feature_names = limit_features 1000 [ta, tb] (sort (remdups (ta @ tb)));
          resume_scores = tfidf_row [ta, tb] feature_names ta;
          jd_scores = tfidf_row [ta, tb] feature_names tb;
          matching =
            map (\<lambda>(t, r, j).
                   \<lparr>mterm = t, resume_score = r, jd_score = j, combined_score = r * j\<rparr>)
              (filter (\<lambda>(t, r, j). r > 0 \<and> j > 0)
                 (zip feature_names (zip resume_scores jd_scores)))
      in Inr \<lparr>similarity_score = cosine_similarity resume_scores jd_scores,
              matching_terms = take 20 (sort_key (\<lambda>m. - combined_score m) matching),
              vectorizer = feature_names,
              resume_vector = resume_scores,
              jd_vector = jd_scores\<rparr>)"
  by (simp add: calculate_tfidf_similarity_def fit_transform_ok Let_def)

lemma tfidf_similarity_error:
  "analyze 2 (preprocess_text nlp a) = [] \<Longrightarrow> analyze 2 (preprocess_text nlp b) = [] \<Longrightarrow>
   calculate_tfidf_similarity nlp a b = Inl ValueError"
proof -
  assume "analyze 2 (preprocess_text nlp a) = []" "analyze 2 (preprocess_text nlp b) = []"
  then have "fit_transform 1000 2 [preprocess_text nlp a, preprocess_text nlp b] = Inl ValueError"
    by (simp add: fit_transform_error)
  then show ?thesis by (simp add: calculate_tfidf_similarity_def Let_def)
qed

section \<open>Norms, the cosine and rounding\<close>

lemma dot_self_nonneg: "0 \<le> dot v v"
  by (induction v) (simp_all add: dot_def)

lemma dot_Cons: "dot (x # xs) (y # ys) = x * y + dot xs ys"
  by (simp add: dot_def)

lemma dot_Nil: "dot [] b = 0" "dot a [] = 0"
  by (simp_all add: dot_def)

lemma l2_norm_nonneg: "0 \<le> l2_norm v"
  by (simp add: l2_norm_def dot_self_nonneg)

lemma l2_norm_Cons: "l2_norm (x # xs) = sqrt (x * x + l2_norm xs * l2_norm xs)"
  by (simp add: l2_norm_def dot_Cons dot_self_nonneg)

lemma cauchy_step:
  fixes x y p q :: real
  assumes "0 \<le> p" "0 \<le> q"
  shows "\<bar>x\<bar> * \<bar>y\<bar> + p * q \<le> sqrt (x * x + p * p) * sqrt (y * y + q * q)"
proof -
  have "0 \<le> (\<bar>x\<bar> * q - \<bar>y\<bar> * p)\<^sup>2" by simp
  then have "2 * (\<bar>x\<bar> * \<bar>y\<bar>) * (p * q) \<le> x * x * (q * q) + y * y * (p * p)"
    by (simp add: power2_eq_square algebra_simps)
  then have "(\<bar>x\<bar> * \<bar>y\<bar> + p * q)\<^sup>2 \<le> (x * x + p * p) * (y * y + q * q)"
    by (simp add: power2_eq_square algebra_simps)
  then have "sqrt ((\<bar>x\<bar> * \<bar>y\<bar> + p * q)\<^sup>2) \<le> sqrt ((x * x + p * p) * (y * y + q * q))"
    by (simp only: real_sqrt_le_iff)
  moreover have "0 \<le> \<bar>x\<bar> * \<bar>y\<bar> + p * q" using assms by simp
  ultimately show ?thesis by (simp add: real_sqrt_mult)
qed

lemma cauchy_schwarz: "\<bar>dot a b\<bar> \<le> l2_norm a * l2_norm b"
proof (induction a arbitrary: b)
  case Nil
  then show ?case by (simp add: dot_Nil l2_norm_def)
next
  case (Cons x xs)
  show ?case
  proof (cases b)
    case Nil
    then show ?thesis by (simp add: dot_Nil l2_norm_nonneg)
  next
    case (Cons y ys)
    have "\<bar>dot (x # xs) (y # ys)\<bar> \<le> \<bar>x\<bar> * \<bar>y\<bar> + \<bar>dot xs ys\<bar>"
      by (simp add: dot_Cons abs_mult [symmetric]) 
    also have "\<dots> \<le> \<bar>x\<bar> * \<bar>y\<bar> + l2_norm xs * l2_norm ys"
      using Cons.IH [of ys] by simp
    also have "\<dots> \<le> l2_norm (x # xs) * l2_norm (y # ys)"
      unfolding l2_norm_Cons by (rule cauchy_step) (rule l2_norm_nonneg)+
    finally show ?thesis using Cons by simp
  qed
qed

lemma dot_scale: "dot (map (\<lambda>x. x / c) a) (map (\<lambda>x. x / k) b) = dot a b / (c * k)"
proof (induction a arbitrary: b)
  case Nil
  then show ?case by (simp add: dot_Nil)
next
  case (Cons x xs)
  then show ?case by (cases b) (simp_all add: dot_Nil dot_Cons add_divide_distrib)
qed

lemma l2_norm_zero_dot: "l2_norm a = 0 \<Longrightarrow> dot a b = 0"
  using cauchy_schwarz [of a b] by simp

lemma cosine_similarity_eq:
  "cosine_similarity a b =
     (if l2_norm a = 0 \<or> l2_norm b = 0 then 0 else dot a b / (l2_norm a * l2_norm b))"
proof -
  have z: "dot a b = 0" if "l2_norm a = 0 \<or> l2_norm b = 0"
    using that l2_norm_zero_dot [of a b] l2_norm_zero_dot [of b a] by (auto simp add: dot_commute)
  have s1: "dot a (map (\<lambda>x. x / k) b) = dot a b / k" for k
    using dot_scale [of 1 a k b] by simp
  have s2: "dot (map (\<lambda>x. x / c) a) b = dot a b / c" for c
    using dot_scale [of c a 1 b] by simp
  show ?thesis
    by (auto simp add: cosine_similarity_def l2_normalize_def z s1 s2 dot_scale)
qed

lemma cosine_similarity_bounds: "- 1 \<le> cosine_similarity a b \<and> cosine_similarity a b \<le> 1"
proof (cases "l2_norm a = 0 \<or> l2_norm b = 0")
  case True
  then show ?thesis by (simp add: cosine_similarity_eq)
next
  case False
  then have pos: "0 < l2_norm a * l2_norm b"
    using l2_norm_nonneg [of a] l2_norm_nonneg [of b] by (simp add: less_le)
  from cauchy_schwarz [of a b]
  have up: "dot a b \<le> l2_norm a * l2_norm b" and lo: "- (l2_norm a * l2_norm b) \<le> dot a b"
    by (simp_all add: abs_le_iff)
  from up pos have "dot a b / (l2_norm a * l2_norm b) \<le> 1"
    by (simp add: pos_divide_le_eq)
  moreover from lo pos have "- 1 \<le> dot a b / (l2_norm a * l2_norm b)"
    by (simp add: pos_le_divide_eq)
  ultimately show ?thesis using False by (simp add: cosine_similarity_eq)
qed

lemma dot_nonneg: "\<forall>x \<in> set a. 0 \<le> x \<Longrightarrow> \<forall>y \<in> set b. 0 \<le> y \<Longrightarrow> 0 \<le> dot a b"
proof (induction a arbitrary: b)
  case Nil
  then show ?case by (simp add: dot_Nil)
next
  case (Cons x xs)
  then show ?case by (cases b) (simp_all add: dot_Nil dot_Cons)
qed

lemma cosine_similarity_nonneg:
  "\<forall>x \<in> set a. 0 \<le> x \<Longrightarrow> \<forall>y \<in> set b. 0 \<le> y \<Longrightarrow> 0 \<le> cosine_similarity a b"
  using dot_nonneg [of a b] l2_norm_nonneg [of a] l2_norm_nonneg [of b]
  by (simp add: cosine_similarity_eq)

lemma round_half_even_le: "y \<le> of_int n \<Longrightarrow> round_half_even y \<le> n"
  unfolding round_half_even_def Let_def by (auto simp add: floor_le_iff)

lemma round_half_even_ge: "of_int n \<le> y \<Longrightarrow> n \<le> round_half_even y"
proof -
  assume "of_int n \<le> y"
  then have "n \<le> \<lfloor>y\<rfloor>" by (simp add: le_floor_iff)
  then show ?thesis unfolding round_half_even_def Let_def by auto
qed

lemma round1_le: "x \<le> of_int n \<Longrightarrow> round1 x \<le> of_int n"
proof -
  assume "x \<le> of_int n"
  then have "x * 10 \<le> of_int (n * 10)" by simp
  then have "round_half_even (x * 10) \<le> n * 10" by (rule round_half_even_le)
  then have "real_of_int (round_half_even (x * 10)) \<le> real_of_int (n * 10)"
    by (simp only: of_int_le_iff)
  then show ?thesis by (simp add: round1_def)
qed

lemma round1_ge: "of_int n \<le> x \<Longrightarrow> of_int n \<le> round1 x"
proof -
  assume "of_int n \<le> x"
  then have "of_int (n * 10) \<le> x * 10" by simp
  then have "n * 10 \<le> round_half_even (x * 10)" by (rule round_half_even_ge)
  then have "real_of_int (n * 10) \<le> real_of_int (round_half_even (x * 10))"
    by (simp only: of_int_le_iff)
  then show ?thesis by (simp add: round1_def)
qed

section \<open>Ranges of the sub-scores\<close>

lemma idf_ge_one: "1 \<le> idf docs t"
proof -
  have "length (filter (\<lambda>d. t \<in> set d) docs) \<le> length docs" by simp
  then have "1 \<le> real (1 + length docs) / real (1 + length (filter (\<lambda>d. t \<in> set d) docs))"
    by (simp add: le_divide_eq)
  then have "0 \<le> ln (real (1 + length docs) / real (1 + length (filter (\<lambda>d. t \<in> set d) docs)))"
    by (rule ln_ge_zero)
  then show ?thesis by (simp add: idf_def)
qed

lemma l2_normalize_nonneg: "\<forall>x \<in> set v. 0 \<le> x \<Longrightarrow> \<forall>x \<in> set (l2_normalize v). 0 \<le> x"
  using l2_norm_nonneg [of v] by (auto simp add: l2_normalize_def)

lemma tfidf_row_nonneg: "\<forall>x \<in> set (tfidf_row docs fn d). 0 \<le> x"
proof -
  have "0 \<le> real (count_list d t) * idf docs t" for t
    using idf_ge_one [of docs t] by simp
  then have "\<forall>x \<in> set (map (\<lambda>t. real (count_list d t) * idf docs t) fn). 0 \<le> x"
    by auto
  then show ?thesis unfolding tfidf_row_def by (rule l2_normalize_nonneg)
qed

lemma tfidf_similarity_bounds:
  assumes "calculate_tfidf_similarity nlp a b = Inr r"
  shows "0 \<le> similarity_score r \<and> similarity_score r \<le> 1"
proof -
  have ne: "analyze 2 (preprocess_text nlp a) @ analyze 2 (preprocess_text nlp b) \<noteq> []"
    using assms tfidf_similarity_error [of nlp a b] by auto
  from assms have "similarity_score r =
      cosine_similarity
        (tfidf_row [analyze 2 (preprocess_text nlp a), analyze 2 (preprocess_text nlp b)]
           (limit_features 1000 [analyze 2 (preprocess_text nlp a), analyze 2 (preprocess_text nlp b)]
              (sort (remdups (analyze 2 (preprocess_text nlp a) @ analyze 2 (preprocess_text nlp b)))))
           (analyze 2 (preprocess_text nlp a)))
        (tfidf_row [analyze 2 (preprocess_text nlp a), analyze 2 (preprocess_text nlp b)]
           (limit_features 1000 [analyze 2 (preprocess_text nlp a), analyze 2 (preprocess_text nlp b)]
              (sort (remdups (analyze 2 (preprocess_text nlp a) @ analyze 2 (preprocess_text nlp b)))))
           (analyze 2 (preprocess_text nlp b)))"
    unfolding tfidf_similarity_ok [OF ne] Let_def by auto
  then show ?thesis
    using cosine_similarity_bounds cosine_similarity_nonneg [OF tfidf_row_nonneg tfidf_row_nonneg]
    by simp
qed

lemma bert_similarity_bounds:
  assumes "calculate_bert_similarity nlp a b = Inr r"
  shows "- 1 \<le> document_similarity r \<and> document_similarity r \<le> 1"
  using assms cosine_similarity_bounds
  by (auto simp add: calculate_bert_similarity_def cosine_similarity_checked_def Let_def
        split: option.splits sum.splits)

lemma ratio_score_bounds:
  "0 \<le> min (real (card (A \<inter> B)) / real (card A) * 100) 100
   \<and> min (real (card (A \<inter> B)) / real (card A) * 100) 100 \<le> 100"
  by simp

lemma keyword_score_bounds:
  assumes "calculate_keyword_score nlp a b = Inr k"
  shows "0 \<le> score k \<and> score k \<le> 100"
  using assms
  by (auto simp add: calculate_keyword_score_def Let_def split: sum.splits)

lemma skill_score_bounds:
  "0 \<le> score (calculate_skill_score nlp a b) \<and> score (calculate_skill_score nlp a b) \<le> 100"
  by (simp add: calculate_skill_score_def Let_def)

lemma semantic_score_bounds:
  assumes "calculate_semantic_score nlp a b = Inr s"
  shows "- 60 \<le> score s \<and> score s \<le> 100"
proof -
  from assms obtain t u where
    t: "calculate_tfidf_similarity nlp a b = Inr t" and
    u: "calculate_bert_similarity nlp a b = Inr u" and
    s: "score s = similarity_score t * 100 * 0.4 + document_similarity u * 100 * 0.6"
    by (auto simp add: calculate_semantic_score_def Let_def split: sum.splits)
  from tfidf_similarity_bounds [OF t] bert_similarity_bounds [OF u] s
  show ?thesis by simp
qed

lemma experience_score_bounds:
  assumes "calculate_experience_score nlp c jd = Inr e"
  shows "- 100 \<le> score e \<and> score e \<le> 100"
proof (cases "paragraphs c")
  case None
  with assms show ?thesis by (auto simp add: calculate_experience_score_def)
next
  case (Some paras)
  with assms bert_similarity_bounds show ?thesis
    by (fastforce simp add: calculate_experience_score_def Let_def split: sum.splits if_splits)
qed

lemma ats_score_parts:
  assumes "calculate_ats_score nlp d jd = Inr r"
  shows "total_score r = round1 (weighted_total (breakdown r))
    \<and> calculate_keyword_score nlp (doc_text d) jd = Inr (keyword_match (breakdown r))
    \<and> skill_match (breakdown r) = calculate_skill_score nlp (doc_text d) jd
    \<and> calculate_semantic_score nlp (doc_text d) jd = Inr (semantic_similarity (breakdown r))
    \<and> calculate_experience_score nlp (get_structured_content d) jd =
        Inr (experience_relevance (breakdown r))
    \<and> formatting_quality (breakdown r) = calculate_formatting_score d"
  using assms
  by (auto simp add: calculate_ats_score_def Let_def split: sum.splits)

lemma ats_score_ok:
  assumes "calculate_keyword_score nlp (doc_text d) jd = Inr k"
    and "calculate_semantic_score nlp (doc_text d) jd = Inr s"
    and "calculate_experience_score nlp (get_structured_content d) jd = Inr e"
  shows "\<exists>r. calculate_ats_score nlp d jd = Inr r"
  using assms by (simp add: calculate_ats_score_def Let_def)

lemma weighted_total_eq:
  "weighted_total b =
     score (keyword_match b) * 0.30 + score (skill_match b) * 0.25 +
     score (semantic_similarity b) * 0.20 + score (experience_relevance b) * 0.15 +
     score (formatting_quality b) * 0.10"
  by (simp add: weighted_total_def weight_def weights_def)

section \<open>Keywords and skills of a text\<close>

lemma limit_features_subset: "set (limit_features m docs v) \<subseteq> set v"
  by (auto simp add: limit_features_def Let_def)

lemma extract_keywords_subset:
  assumes "extract_keywords nlp t k = Inr kws"
  shows "fst ` set kws \<subseteq> set (analyze 3 (preprocess_text nlp t))"
proof -
  have ne: "analyze 3 (preprocess_text nlp t) \<noteq> []" and k0: "k * 2 \<noteq> 0"
    using assms fit_transform_error [of "k * 2" 3 "[preprocess_text nlp t]"]
    by (auto simp add: extract_keywords_def Let_def split: sum.splits)
  have ft: "fit_transform (k * 2) 3 [preprocess_text nlp t] =
      Inr (limit_features (k * 2) [analyze 3 (preprocess_text nlp t)]
             (sort (remdups (analyze 3 (preprocess_text nlp t)))),
           [tfidf_row [analyze 3 (preprocess_text nlp t)]
              (limit_features (k * 2) [analyze 3 (preprocess_text nlp t)]
                 (sort (remdups (analyze 3 (preprocess_text nlp t)))))
              (analyze 3 (preprocess_text nlp t))])"
    using fit_transform_ok [of "k * 2" 3 "[preprocess_text nlp t]"] ne k0 by (simp add: Let_def)
  have "set kws \<subseteq> set (zip
          (limit_features (k * 2) [analyze 3 (preprocess_text nlp t)]
             (sort (remdups (analyze 3 (preprocess_text nlp t)))))
          (tfidf_row [analyze 3 (preprocess_text nlp t)]
              (limit_features (k * 2) [analyze 3 (preprocess_text nlp t)]
                 (sort (remdups (analyze 3 (preprocess_text nlp t)))))
              (analyze 3 (preprocess_text nlp t))))"
    using assms unfolding extract_keywords_def Let_def ft
    by (auto dest!: in_set_takeD)
  then have "fst ` set kws \<subseteq> set (limit_features (k * 2) [analyze 3 (preprocess_text nlp t)]
             (sort (remdups (analyze 3 (preprocess_text nlp t)))))"
    by (auto dest!: subsetD set_zip_leftD)
  also have "\<dots> \<subseteq> set (sort (remdups (analyze 3 (preprocess_text nlp t))))"
    by (rule limit_features_subset)
  finally show ?thesis by simp
qed

lemma extract_keywords_ok:
  "analyze 3 (preprocess_text nlp t) \<noteq> [] \<Longrightarrow> k > 0 \<Longrightarrow> \<exists>kws. extract_keywords nlp t k = Inr kws"
  by (simp add: extract_keywords_def fit_transform_ok Let_def)

lemma keyword_score_ok:
  assumes "analyze 3 (preprocess_text nlp a) \<noteq> []" and "analyze 3 (preprocess_text nlp b) \<noteq> []"
  shows "\<exists>k. calculate_keyword_score nlp a b = Inr k"
proof -
  obtain ka where "extract_keywords nlp a 50 = Inr ka"
    using extract_keywords_ok [OF assms(1), of 50] by auto
  moreover obtain kb where "extract_keywords nlp b 30 = Inr kb"
    using extract_keywords_ok [OF assms(2), of 30] by auto
  ultimately show ?thesis by (simp add: calculate_keyword_score_def Let_def)
qed

lemma semantic_score_value:
  assumes "calculate_tfidf_similarity nlp a b = Inr t"
    and "calculate_bert_similarity nlp a b = Inr u"
  shows "\<exists>s. calculate_semantic_score nlp a b = Inr s \<and>
           score s = similarity_score t * 100 * 0.4 + document_similarity u * 100 * 0.6"
  using assms by (simp add: calculate_semantic_score_def Let_def)

lemma limit_features_nonempty:
  assumes "0 < m" and "v \<noteq> []"
  shows "limit_features m docs v \<noteq> []"
proof (cases "length v > m")
  case False
  with assms show ?thesis by (simp add: limit_features_def)
next
  case True
  define top where
    "top = take m (sort_key (\<lambda>t. - int (sum_list (map (\<lambda>d. count_list d t) docs))) v)"
  have "length top = m" using True by (simp add: top_def)
  with assms(1) obtain x xs where x: "top = x # xs" by (cases top) auto
  have "set top \<subseteq> set v" unfolding top_def using set_take_subset [of m] by fastforce
  with x have "x \<in> set v" by auto
  with x have "x \<in> set (filter (\<lambda>t. t \<in> set top) v)" by simp
  then have "filter (\<lambda>t. t \<in> set top) v \<noteq> []" by (metis empty_iff empty_set)
  with True show ?thesis by (simp add: limit_features_def Let_def top_def)
qed

lemma dot_self_pos:
  assumes "v \<noteq> []" and "\<forall>x \<in> set v. 0 < x"
  shows "0 < dot v v"
proof (cases v)
  case Nil
  with assms show ?thesis by simp
next
  case (Cons x xs)
  with assms have "0 < x * x" by simp
  moreover have "0 \<le> dot xs xs" by (rule dot_self_nonneg)
  ultimately show ?thesis using Cons by (simp add: dot_Cons)
qed

lemma l2_normalize_pos:
  assumes "\<forall>x \<in> set v. 0 < x"
  shows "\<forall>x \<in> set (l2_normalize v). 0 < x"
proof (cases "v = []")
  case True
  then show ?thesis by (simp add: l2_normalize_def)
next
  case False
  then have "0 < l2_norm v" using dot_self_pos [OF False assms] by (simp add: l2_norm_def)
  with assms show ?thesis by (simp add: l2_normalize_def)
qed

lemma tfidf_row_pos:
  assumes "set fn \<subseteq> set d"
  shows "\<forall>x \<in> set (tfidf_row docs fn d). 0 < x"
proof -
  have "0 < real (count_list d t) * idf docs t" if "t \<in> set fn" for t
  proof -
    from that assms have "t \<in> set d" by auto
    then have "count_list d t \<noteq> 0" by (simp add: count_list_0_iff)
    then have "0 < count_list d t" by simp
    moreover have "0 < idf docs t" using idf_ge_one [of docs t] by simp
    ultimately show ?thesis by simp
  qed
  then have "\<forall>x \<in> set (map (\<lambda>t. real (count_list d t) * idf docs t) fn). 0 < x" by auto
  then show ?thesis unfolding tfidf_row_def by (rule l2_normalize_pos)
qed

lemma length_l2_normalize: "length (l2_normalize v) = length v"
  by (simp add: l2_normalize_def)

lemma length_tfidf_row: "length (tfidf_row docs fn d) = length fn"
  by (simp add: tfidf_row_def length_l2_normalize)

lemma extract_keywords_value:
  assumes ne: "analyze 3 (preprocess_text nlp t) \<noteq> []" and k: "0 < k"
  shows "\<exists>fn. fn \<noteq> [] \<and> set fn \<subseteq> set (analyze 3 (preprocess_text nlp t)) \<and>
           extract_keywords nlp t k =
             Inr (take k (sort_key (\<lambda>(w, s). - s)
                    (zip fn (tfidf_row [analyze 3 (preprocess_text nlp t)] fn
                               (analyze 3 (preprocess_text nlp t))))))"
proof -
  let ?d = "analyze 3 (preprocess_text nlp t)"
  let ?fn = "limit_features (k * 2) [?d] (sort (remdups ?d))"
  from ne have v: "sort (remdups ?d) \<noteq> []" by (simp add: sort_remdups_Nil)
  from k have k2: "0 < k * 2" by simp
  have fn_ne: "?fn \<noteq> []" by (rule limit_features_nonempty [OF k2 v])
  have sub: "set ?fn \<subseteq> set ?d" using limit_features_subset [of "k * 2" "[?d]" "sort (remdups ?d)"] by simp
  have ft: "fit_transform (k * 2) 3 [preprocess_text nlp t] = Inr (?fn, [tfidf_row [?d] ?fn ?d])"
    using fit_transform_ok [of "k * 2" 3 "[preprocess_text nlp t]"] ne k by (simp add: Let_def)
  have all_pos: "filter (\<lambda>(w, s). s > 0) (zip ?fn (tfidf_row [?d] ?fn ?d)) = zip ?fn (tfidf_row [?d] ?fn ?d)"
    using tfidf_row_pos [OF sub, of "[?d]"] by (auto simp add: filter_id_conv dest: set_zip_rightD)
  have "extract_keywords nlp t k =
      Inr (take k (sort_key (\<lambda>(w, s). - s) (zip ?fn (tfidf_row [?d] ?fn ?d))))"
    by (simp add: extract_keywords_def Let_def ft all_pos)
  with fn_ne sub show ?thesis by blast
qed

lemma extract_keywords_nonempty:
  assumes ne: "analyze 3 (preprocess_text nlp t) \<noteq> []" and k: "0 < k"
  shows "\<exists>keywords. extract_keywords nlp t k = Inr keywords \<and> keywords \<noteq> [] \<and>
           length keywords \<le> k \<and>
           fst ` set keywords \<subseteq> set (analyze 3 (preprocess_text nlp t)) \<and>
           (\<forall>kw \<in> set keywords. 0 < snd kw)"
proof -
  let ?d = "analyze 3 (preprocess_text nlp t)"
  from extract_keywords_value [OF ne k] obtain fn where
    fn: "fn \<noteq> []" "set fn \<subseteq> set ?d" and
    v: "extract_keywords nlp t k =
          Inr (take k (sort_key (\<lambda>(w, s). - s) (zip fn (tfidf_row [?d] fn ?d))))"
    by blast
  let ?kws = "take k (sort_key (\<lambda>(w, s). - s) (zip fn (tfidf_row [?d] fn ?d)))"
  have l: "length ?kws = min k (length fn)" by (simp add: length_tfidf_row)
  have "0 < length fn" using fn(1) by simp
  with k have "0 < min k (length fn)" by simp
  with l have "0 < length ?kws" by (simp only:)
  then have ne': "?kws \<noteq> []" by (metis length_greater_0_conv)
  have le: "length ?kws \<le> k" by simp
  have mem: "set ?kws \<subseteq> set (zip fn (tfidf_row [?d] fn ?d))"
    using set_take_subset [of k "sort_key (\<lambda>(w, s). - s) (zip fn (tfidf_row [?d] fn ?d))"]
    by simp
  have pos: "\<forall>kw \<in> set ?kws. 0 < snd kw"
  proof
    fix kw assume "kw \<in> set ?kws"
    with mem have "kw \<in> set (zip fn (tfidf_row [?d] fn ?d))" by auto
    then have "(fst kw, snd kw) \<in> set (zip fn (tfidf_row [?d] fn ?d))" by simp
    then have "snd kw \<in> set (tfidf_row [?d] fn ?d)" by (rule set_zip_rightD)
    with tfidf_row_pos [OF fn(2), of "[?d]"] show "0 < snd kw" by blast
  qed
  have sub: "fst ` set ?kws \<subseteq> set ?d"
    using extract_keywords_subset [OF v] .
  from v ne' le sub pos show ?thesis by blast
qed

lemma remdups_Nil_iff: "remdups xs = [] \<longleftrightarrow> xs = []"
  by (metis set_empty set_remdups)

lemma catalog_filter_empty:
  "map (\<lambda>(category, skills). (category, filter P skills)) ps =
     map (\<lambda>(category, skills). (category, [])) ps
   \<longleftrightarrow> (\<forall>skill \<in> set (concat (map snd ps)). \<not> P skill)"
  by (induction ps) (auto simp add: filter_empty_conv)

lemma empty_catalog:
  "[(''programming_languages'', []), (''web_technologies'', []), (''databases'', []),
    (''cloud_platforms'', []), (''tools'', []), (''other'', [])] =
   map (\<lambda>(category, skills). (category, [])) skill_patterns @ [(''other'', [] :: string list)]"
  by (simp add: skill_patterns_def)

lemma extract_skills_empty_iff:
  "extract_skills nlp txt =
     [(''programming_languages'', []), (''web_technologies'', []), (''databases'', []),
      (''cloud_platforms'', []), (''tools'', []), (''other'', [])]
   \<longleftrightarrow> (\<forall>skill \<in> set (concat (map snd skill_patterns)). \<not> sublist skill (lower txt))
       \<and> entity_skills nlp txt = [] \<and> chunk_skills nlp txt = []"
  unfolding empty_catalog extract_skills_def Let_def
  by (simp only: append1_eq_conv catalog_filter_empty prod.inject remdups_Nil_iff
        append_is_Nil_conv simp_thms)

section \<open>Runs on the small instance\<close>

lemma simple_no_entities: "ents simple_nlp t = []" "noun_chunks simple_nlp t = []"
  by (simp_all add: simple_nlp_def)

lemma pre_empty: "preprocess_text simple_nlp [] = []"
  by code_simp

lemma pre_short: "preprocess_text simple_nlp ''I am'' = []"
  by code_simp

lemma pre_r: "preprocess_text simple_nlp ''R'' = []"
  by code_simp

lemma pre_python: "preprocess_text simple_nlp ''Python developer'' = ''python developer''"
  by code_simp

lemma pre_java: "preprocess_text simple_nlp ''Java developer'' = ''java developer''"
  by code_simp

lemma analyze_empty: "analyze n [] = []"
  by (simp add: analyze_def word_ngrams_def tokenize_def lower_def)

lemma analyze2_python: "analyze 2 ''python developer'' = [''python'', ''developer'', ''python developer'']"
  by code_simp

lemma analyze3_python: "analyze 3 ''python developer'' = [''python'', ''developer'', ''python developer'']"
  by code_simp

lemma analyze2_java: "analyze 2 ''java developer'' = [''java'', ''developer'', ''java developer'']"
  by code_simp

lemma long_short: "long_sentences simple_nlp ''Too short'' = []"
  by (simp add: long_sentences_def simple_nlp_def strip_def is_space_def)

lemma long_jd: "long_sentences simple_nlp ''Compiler engineer wanted now'' = [''Compiler engineer wanted now'']"
  by (simp add: long_sentences_def simple_nlp_def strip_def is_space_def)




lemma simple_no_candidates: "entity_skills simple_nlp t = []" "chunk_skills simple_nlp t = []"
  by (simp_all add: entity_skills_def chunk_skills_def simple_no_entities)

lemma strip_separators:
  "strip (CHR 0x1C # ''hello worl'' @ [CHR 0xA0]) = ''hello worl''"
  "long_sentences simple_nlp (CHR 0x1C # ''hello worl'') = []"
  by code_simp+

lemma no_skill_in_digits:
  "\<forall>skill \<in> set (concat (map snd skill_patterns)). \<not> sublist skill (lower ''12345 67'')"
  by code_simp

lemma no_skill_in_empty:
  "\<forall>skill \<in> set (concat (map snd skill_patterns)). \<not> sublist skill (lower [])"
  by code_simp

section \<open>Skill match\<close>




section \<open>Texts without terms or sentences\<close>

text \<open>
  C6, as the code has it. The terms of a text are what the vectorizer's analyzer finds in
  the preprocessed text. When exactly one of the two texts has no term, the lexical
  similarity is 0 and there are no matching terms. When neither text has a term the
  vectorizer has an empty vocabulary and raises \<open>ValueError\<close>, which
  \<open>calculate_tfidf_similarity\<close> passes on.
\<close>

theorem tfidf_zero_terms:
  "(analyze 2 (preprocess_text nlp a) = [] \<and> analyze 2 (preprocess_text nlp b) = [] \<longrightarrow>
      calculate_tfidf_similarity nlp a b = Inl ValueError)
   \<and> ((analyze 2 (preprocess_text nlp a) = []) \<noteq> (analyze 2 (preprocess_text nlp b) = []) \<longrightarrow>
      (\<exists>r. calculate_tfidf_similarity nlp a b = Inr r \<and>
           similarity_score r = 0 \<and> matching_terms r = []))"
proof (intro conjI impI)
  assume "analyze 2 (preprocess_text nlp a) = [] \<and> analyze 2 (preprocess_text nlp b) = []"
  then show "calculate_tfidf_similarity nlp a b = Inl ValueError"
    by (simp add: tfidf_similarity_error)
next
  assume one: "(analyze 2 (preprocess_text nlp a) = []) \<noteq> (analyze 2 (preprocess_text nlp b) = [])"
  then have ne: "analyze 2 (preprocess_text nlp a) @ analyze 2 (preprocess_text nlp b) \<noteq> []"
    by auto
  from one consider
      (left) "analyze 2 (preprocess_text nlp a) = []"
    | (right) "analyze 2 (preprocess_text nlp b) = []"
    by auto
  then show "\<exists>r. calculate_tfidf_similarity nlp a b = Inr r \<and>
           similarity_score r = 0 \<and> matching_terms r = []"
  proof cases
    case left
    show ?thesis
      unfolding tfidf_similarity_ok [OF ne] Let_def
      by (simp add: left tfidf_row_empty cosine_zero_left no_matching_left)
  next
    case right
    show ?thesis
      unfolding tfidf_similarity_ok [OF ne] Let_def
      by (simp add: right tfidf_row_empty cosine_zero_right no_matching_right)
  qed
qed

theorem tfidf_zero_terms_witness:
  "calculate_tfidf_similarity simple_nlp ''I am'' [] = Inl ValueError
   \<and> (\<exists>r. calculate_tfidf_similarity simple_nlp [] ''Python developer'' = Inr r \<and>
           similarity_score r = 0 \<and> matching_terms r = [])
   \<and> (\<exists>r. calculate_tfidf_similarity simple_nlp ''Python developer'' ''I am'' = Inr r \<and>
           similarity_score r = 0 \<and> matching_terms r = [])"
  using tfidf_zero_terms [of simple_nlp "''I am''" "[]"]
    tfidf_zero_terms [of simple_nlp "[]" "''Python developer''"]
    tfidf_zero_terms [of simple_nlp "''Python developer''" "''I am''"]
  by (simp add: pre_empty pre_short pre_python analyze_empty analyze2_python)

text \<open>
  C6 as stated fails when both texts are without terms: for the empty text and "I am"
  (both words are dropped as too short) no similarity is returned, but an error.
\<close>

theorem tfidf_zero_terms_counterexample:
  "calculate_tfidf_similarity simple_nlp [] ''I am'' = Inl ValueError"
  by (simp add: tfidf_similarity_error pre_empty pre_short analyze_empty)

text \<open>
  C7, as the code has it. When one of the texts has no sentence longer than ten
  characters, the mean of its sentence embeddings is taken all the same and is undefined
  (NaN); the similarity routine then rejects it with the library's generic \<open>ValueError\<close>,
  which \<open>calculate_bert_similarity\<close> passes on. The program has no condition of its own
  for insufficient content. When both texts have such a sentence, a result is returned.
\<close>

theorem bert_insufficient_content:
  "(long_sentences nlp resume_text = [] \<longrightarrow>
      np_mean (map (encode nlp) (long_sentences nlp resume_text)) = None)
   \<and> (long_sentences nlp jd_text = [] \<longrightarrow>
      np_mean (map (encode nlp) (long_sentences nlp jd_text)) = None)
   \<and> (long_sentences nlp resume_text = [] \<or> long_sentences nlp jd_text = [] \<longrightarrow>
      calculate_bert_similarity nlp resume_text jd_text = Inl ValueError)
   \<and> (long_sentences nlp resume_text \<noteq> [] \<and> long_sentences nlp jd_text \<noteq> [] \<longrightarrow>
      (\<exists>r. calculate_bert_similarity nlp resume_text jd_text = Inr r))"
  by (auto simp add: calculate_bert_similarity_def np_mean_def cosine_similarity_checked_def Let_def)

theorem bert_insufficient_content_witness:
  "calculate_bert_similarity simple_nlp ''Too short'' ''Compiler engineer wanted now'' = Inl ValueError
   \<and> calculate_bert_similarity simple_nlp ''Compiler engineer wanted now'' ''Too short'' = Inl ValueError
   \<and> (\<exists>r. calculate_bert_similarity simple_nlp ''Compiler engineer wanted now''
             ''Compiler engineer wanted now'' = Inr r)"
  using bert_insufficient_content [of simple_nlp "''Too short''" "''Compiler engineer wanted now''"]
    bert_insufficient_content [of simple_nlp "''Compiler engineer wanted now''" "''Too short''"]
    bert_insufficient_content [of simple_nlp "''Compiler engineer wanted now''" "''Compiler engineer wanted now''"]
  by (simp add: long_short long_jd)

text \<open>
  C7 as stated fails: for the empty resume text the undefined mean is computed and the
  outcome is the library's \<open>ValueError\<close>.
\<close>

theorem bert_insufficient_content_counterexample:
  "long_sentences simple_nlp [] = []
   \<and> np_mean (map (encode simple_nlp) (long_sentences simple_nlp [])) = None
   \<and> calculate_bert_similarity simple_nlp [] ''Compiler engineer wanted now'' = Inl ValueError"
  by (simp add: bert_eval)

text \<open>
  C8, as the code has it. The terms of a text are what the vectorizer's analyzer finds in
  the preprocessed text. For every text without a term, \<open>extract_keywords\<close> raises
  \<open>ValueError\<close> (the vectorizer's empty vocabulary). For every other text and a positive
  \<open>top_k\<close> it returns a list that is not empty, has at most \<open>top_k\<close> keywords, each of
  them a term of the text, and each with a positive score. \<open>extract_skills\<close> does not
  preprocess the text: its result always has the five catalog categories and \<open>other\<close>,
  and all six lists are empty exactly when the lower-cased text contains no catalog skill
  and the loops over the entities and the noun chunks keep no candidate; they keep none
  when the language pipeline finds no entity and no noun chunk.
\<close>

theorem degenerate_text_extraction:
  "(analyze 3 (preprocess_text nlp txt) = [] \<longrightarrow>
      extract_keywords nlp txt top_k = Inl ValueError)
   \<and> (analyze 3 (preprocess_text nlp txt) \<noteq> [] \<and> top_k > 0 \<longrightarrow>
      (\<exists>keywords. extract_keywords nlp txt top_k = Inr keywords \<and> keywords \<noteq> [] \<and>
         length keywords \<le> top_k \<and>
         fst ` set keywords \<subseteq> set (analyze 3 (preprocess_text nlp txt)) \<and>
         (\<forall>kw \<in> set keywords. 0 < snd kw)))
   \<and> (extract_skills nlp txt =
        [(''programming_languages'', []), (''web_technologies'', []), (''databases'', []),
         (''cloud_platforms'', []), (''tools'', []), (''other'', [])]
      \<longleftrightarrow> (\<forall>skill \<in> set (concat (map snd skill_patterns)). \<not> sublist skill (lower txt))
          \<and> entity_skills nlp txt = [] \<and> chunk_skills nlp txt = [])
   \<and> (ents nlp txt = [] \<and> noun_chunks nlp txt = [] \<longrightarrow>
        entity_skills nlp txt = [] \<and> chunk_skills nlp txt = [])
   \<and> map fst (extract_skills nlp txt) =
        [''programming_languages'', ''web_technologies'', ''databases'', ''cloud_platforms'',
         ''tools'', ''other'']"
proof (intro conjI impI)
  assume "analyze 3 (preprocess_text nlp txt) = []"
  then have "fit_transform (top_k * 2) 3 [preprocess_text nlp txt] = Inl ValueError"
    by (simp add: fit_transform_error)
  then show "extract_keywords nlp txt top_k = Inl ValueError"
    by (simp add: extract_keywords_def Let_def)
next
  assume "analyze 3 (preprocess_text nlp txt) \<noteq> [] \<and> top_k > 0"
  then show "\<exists>keywords. extract_keywords nlp txt top_k = Inr keywords \<and> keywords \<noteq> [] \<and>
         length keywords \<le> top_k \<and>
         fst ` set keywords \<subseteq> set (analyze 3 (preprocess_text nlp txt)) \<and>
         (\<forall>kw \<in> set keywords. 0 < snd kw)"
    using extract_keywords_nonempty [of nlp "txt" top_k] by blast
next
  show "extract_skills nlp txt =
        [(''programming_languages'', []), (''web_technologies'', []), (''databases'', []),
         (''cloud_platforms'', []), (''tools'', []), (''other'', [])]
      \<longleftrightarrow> (\<forall>skill \<in> set (concat (map snd skill_patterns)). \<not> sublist skill (lower txt))
          \<and> entity_skills nlp txt = [] \<and> chunk_skills nlp txt = []"
    by (rule extract_skills_empty_iff)
next
  assume "ents nlp txt = [] \<and> noun_chunks nlp txt = []"
  then show "entity_skills nlp txt = []" by (simp add: entity_skills_def)
next
  assume "ents nlp txt = [] \<and> noun_chunks nlp txt = []"
  then show "chunk_skills nlp txt = []" by (simp add: chunk_skills_def)
next
  show "map fst (extract_skills nlp txt) =
        [''programming_languages'', ''web_technologies'', ''databases'', ''cloud_platforms'',
         ''tools'', ''other'']"
    by (simp add: extract_skills_def skill_patterns_def Let_def)
qed

theorem degenerate_text_extraction_witness:
  "extract_keywords simple_nlp ''I am'' 20 = Inl ValueError
   \<and> (\<exists>keywords. extract_keywords simple_nlp ''Python developer'' 20 = Inr keywords \<and>
         keywords \<noteq> [] \<and> length keywords \<le> 20 \<and>
         fst ` set keywords \<subseteq> {''python'', ''developer'', ''python developer''})
   \<and> extract_skills simple_nlp [] =
        [(''programming_languages'', []), (''web_technologies'', []), (''databases'', []),
         (''cloud_platforms'', []), (''tools'', []), (''other'', [])]
   \<and> extract_skills simple_nlp ''12345 67'' =
        [(''programming_languages'', []), (''web_technologies'', []), (''databases'', []),
         (''cloud_platforms'', []), (''tools'', []), (''other'', [])]"
proof -
  have a: "extract_keywords simple_nlp ''I am'' 20 = Inl ValueError"
    using degenerate_text_extraction [of simple_nlp "''I am''" 20]
    by (simp add: pre_short analyze_empty)
  have b: "\<exists>keywords. extract_keywords simple_nlp ''Python developer'' 20 = Inr keywords \<and>
         keywords \<noteq> [] \<and> length keywords \<le> 20 \<and>
         fst ` set keywords \<subseteq> {''python'', ''developer'', ''python developer''}"
    using degenerate_text_extraction [of simple_nlp "''Python developer''" 20]
    by (simp add: pre_python analyze3_python) blast
  have c: "extract_skills simple_nlp [] =
        [(''programming_languages'', []), (''web_technologies'', []), (''databases'', []),
         (''cloud_platforms'', []), (''tools'', []), (''other'', [])]"
    using degenerate_text_extraction [of simple_nlp "[]" 20] no_skill_in_empty
    by (simp only: simple_no_candidates simp_thms)
  have d: "extract_skills simple_nlp ''12345 67'' =
        [(''programming_languages'', []), (''web_technologies'', []), (''databases'', []),
         (''cloud_platforms'', []), (''tools'', []), (''other'', [])]"
    using degenerate_text_extraction [of simple_nlp "''12345 67''" 20] no_skill_in_digits
    by (simp only: simple_no_candidates simp_thms)
  from a b c d show ?thesis by simp
qed

text \<open>
  C8 as stated fails: the empty text makes \<open>extract_keywords\<close> raise an error; and the
  text "R", which preprocessing empties, still has the skill "r", because the skills are
  looked up in the raw lower-cased text.
\<close>

theorem degenerate_text_extraction_counterexample:
  "preprocess_text simple_nlp [] = []
   \<and> extract_keywords simple_nlp [] 20 = Inl ValueError
   \<and> preprocess_text simple_nlp ''R'' = []
   \<and> skills_in (extract_skills simple_nlp ''R'') ''programming_languages'' = [''r'']"
proof -
  have "fit_transform (20 * 2) 3 [preprocess_text simple_nlp []] = Inl ValueError"
    by (simp add: fit_transform_error pre_empty analyze_empty)
  then have "extract_keywords simple_nlp [] 20 = Inl ValueError"
    by (simp add: extract_keywords_def Let_def)
  moreover have "skills_in (extract_skills simple_nlp ''R'') ''programming_languages'' = [''r'']"
    by code_simp
  ultimately show ?thesis by (simp add: pre_empty pre_r)
qed

section \<open>Symmetry of the lexical similarity\<close>

text \<open>
  C9. Exchanging the two texts does not change the outcome of the lexical similarity:
  either both calls raise the same error or both return the same similarity score.
\<close>

theorem tfidf_similarity_symmetric:
  "map_sum (\<lambda>e. e) similarity_score (calculate_tfidf_similarity nlp a b) =
   map_sum (\<lambda>e. e) similarity_score (calculate_tfidf_similarity nlp b a)"
proof (cases "analyze 2 (preprocess_text nlp a) @ analyze 2 (preprocess_text nlp b) = []")
  case True
  then show ?thesis by (simp add: tfidf_similarity_error)
next
  case False
  then have ne': "analyze 2 (preprocess_text nlp b) @ analyze 2 (preprocess_text nlp a) \<noteq> []"
    by auto
  show ?thesis
    unfolding tfidf_similarity_ok [OF False] tfidf_similarity_ok [OF ne'] Let_def
    by (simp add: sort_remdups_append_commute [of "analyze 2 (preprocess_text nlp a)"]
          limit_features_swap [of _ "analyze 2 (preprocess_text nlp a)"]
          tfidf_row_swap [of "analyze 2 (preprocess_text nlp a)"]
          cosine_similarity_commute [of "tfidf_row _ _ (analyze 2 (preprocess_text nlp a))"])
qed

theorem tfidf_similarity_symmetric_witness:
  "(\<exists>r. calculate_tfidf_similarity simple_nlp ''Python developer'' ''Java developer'' = Inr r)
   \<and> map_sum (\<lambda>e. e) similarity_score
        (calculate_tfidf_similarity simple_nlp ''Python developer'' ''Java developer'') =
      map_sum (\<lambda>e. e) similarity_score
        (calculate_tfidf_similarity simple_nlp ''Java developer'' ''Python developer'')"
  using tfidf_similarity_symmetric [of simple_nlp "''Python developer''" "''Java developer''"]
  by (simp add: tfidf_similarity_ok pre_python pre_java analyze2_python analyze2_java Let_def)

section \<open>Total score\<close>

text \<open>
  Whenever \<open>calculate_ats_score\<close> returns, its total score is the weighted sum of the five
  sub-scores, with the weights 0.30 for keywords, 0.25 for skills, 0.20 for semantic
  similarity, 0.15 for experience and 0.10 for formatting, rounded to one decimal. The
  total is at most 100. The keyword, skill and formatting sub-scores lie between 0 and
  100; the semantic and the experience sub-score are built from cosines of sentence
  embeddings, which range from -1 to 1 and are not clamped. So the total is at least 0
  when these two sub-scores are not negative, and at least -27 whatever the embeddings
  are.
\<close>

lemma total_score_bounds:
  assumes "calculate_ats_score nlp d jd = Inr r"
  shows "total_score r =
           round1 (score (keyword_match (breakdown r)) * 0.30 +
                   score (skill_match (breakdown r)) * 0.25 +
                   score (semantic_similarity (breakdown r)) * 0.20 +
                   score (experience_relevance (breakdown r)) * 0.15 +
                   score (formatting_quality (breakdown r)) * 0.10)
         \<and> total_score r \<le> 100
         \<and> - 27 \<le> total_score r
         \<and> (0 \<le> score (semantic_similarity (breakdown r)) \<and>
             0 \<le> score (experience_relevance (breakdown r)) \<longrightarrow> 0 \<le> total_score r)"
proof -
  note p = ats_score_parts [OF assms]
  from p have total: "total_score r = round1 (weighted_total (breakdown r))" by simp
  from p keyword_score_bounds
  have k: "0 \<le> score (keyword_match (breakdown r))" "score (keyword_match (breakdown r)) \<le> 100"
    by blast+
  from p skill_score_bounds [of nlp "doc_text d" jd]
  have s: "0 \<le> score (skill_match (breakdown r))" "score (skill_match (breakdown r)) \<le> 100"
    by simp_all
  from p semantic_score_bounds
  have m: "- 60 \<le> score (semantic_similarity (breakdown r))"
    "score (semantic_similarity (breakdown r)) \<le> 100"
    by blast+
  from p experience_score_bounds
  have e: "- 100 \<le> score (experience_relevance (breakdown r))"
    "score (experience_relevance (breakdown r)) \<le> 100"
    by blast+
  from p formatting_score_bounds [of d]
  have f: "0 \<le> score (formatting_quality (breakdown r))"
    "score (formatting_quality (breakdown r)) \<le> 100"
    by simp_all
  have up: "weighted_total (breakdown r) \<le> of_int 100"
    using k s m e f by (simp add: weighted_total_eq)
  have lo: "of_int (- 27) \<le> weighted_total (breakdown r)"
    using k s m e f by (simp add: weighted_total_eq)
  have nn: "of_int 0 \<le> weighted_total (breakdown r)"
    if "0 \<le> score (semantic_similarity (breakdown r))"
      "0 \<le> score (experience_relevance (breakdown r))"
    using k s f that by (simp add: weighted_total_eq)
  from round1_le [OF up] have "total_score r \<le> 100" by (simp add: total)
  moreover from round1_ge [OF lo] have "- 27 \<le> total_score r" by (simp add: total)
  moreover have "0 \<le> total_score r"
    if "0 \<le> score (semantic_similarity (breakdown r))"
      "0 \<le> score (experience_relevance (breakdown r))"
    using round1_ge [OF nn [OF that]] by (simp add: total)
  ultimately show ?thesis by (simp add: total weighted_total_eq)
qed

text \<open>
  A document without structured content and without reported formatting issues, which is
  what \<open>api_analyze\<close> builds from the text it is sent, has an experience sub-score of 30
  and a formatting sub-score of at least 80, and its total lies between 0 and 100 whatever
  the embeddings are.
\<close>

lemma total_score_plain_document:
  assumes r: "calculate_ats_score nlp d jd = Inr r"
    and sc: "structured_content d = None"
    and md: "(case metadata d of None \<Rightarrow> []
              | Some m \<Rightarrow> (case formatting_issues m of None \<Rightarrow> [] | Some fi \<Rightarrow> fi)) = []"
  shows "0 \<le> total_score r \<and> total_score r \<le> 100"
proof -
  note p = ats_score_parts [OF r]
  from p have total: "total_score r = round1 (weighted_total (breakdown r))" by simp
  from p keyword_score_bounds
  have k: "0 \<le> score (keyword_match (breakdown r))" by blast
  from p skill_score_bounds [of nlp "doc_text d" jd]
  have s: "0 \<le> score (skill_match (breakdown r))" by simp
  from p semantic_score_bounds
  have m: "- 60 \<le> score (semantic_similarity (breakdown r))" by blast
  from sc have "calculate_experience_score nlp (get_structured_content d) jd =
      Inr \<lparr>score = 30, details = Some ''Unable to analyze experience structure'',
           experience_paragraphs_count = None, relevance_score = None\<rparr>"
    by (simp add: calculate_experience_score_def get_structured_content_def)
  moreover from p have "calculate_experience_score nlp (get_structured_content d) jd =
      Inr (experience_relevance (breakdown r))" by blast
  ultimately have "experience_relevance (breakdown r) =
      \<lparr>score = 30, details = Some ''Unable to analyze experience structure'',
       experience_paragraphs_count = None, relevance_score = None\<rparr>"
    by (metis sum.inject(2))
  then have e: "score (experience_relevance (breakdown r)) = 30" by simp
  from p have "formatting_quality (breakdown r) = calculate_formatting_score d" by blast
  with sc md have f: "80 \<le> score (formatting_quality (breakdown r))"
    by (auto simp add: calculate_formatting_score_def Let_def split: option.splits)
  have nn: "of_int 0 \<le> weighted_total (breakdown r)"
    using k s m e f by (simp add: weighted_total_eq)
  from round1_ge [OF nn] have "0 \<le> total_score r" by (simp add: total)
  with total_score_bounds [OF r] show ?thesis by simp
qed

lemma total_score_api_document:
  assumes "calculate_ats_score nlp (api_resume_data resume_text) jd = Inr r"
  shows "0 \<le> total_score r \<and> total_score r \<le> 100"
  using total_score_plain_document [OF assms] by (simp add: api_resume_data_def)

text \<open>One run with a structured document, on the small instance.\<close>

lemma years_terms:
  "analyze 3 (preprocess_text simple_nlp ''I developed compilers for ten years'') \<noteq> []"
  "analyze 3 (preprocess_text simple_nlp ''Compiler engineer wanted now'') \<noteq> []"
  "analyze 2 (preprocess_text simple_nlp ''I developed compilers for ten years'') @
   analyze 2 (preprocess_text simple_nlp ''Compiler engineer wanted now'') \<noteq> []"
  by code_simp+

lemma years_bert:
  "calculate_bert_similarity simple_nlp ''I developed compilers for ten years''
     ''Compiler engineer wanted now'' =
   Inr \<lparr>document_similarity = 1,
        sentence_similarities =
          [\<lparr>resume_sentence = ''I developed compilers for ten years'',
            best_match = ''Compiler engineer wanted now'', similarity = 1\<rparr>],
        resume_embeddings = [[1]], jd_embeddings = [[1]]\<rparr>"
  by (simp add: bert_eval)

lemma years_experience:
  "calculate_experience_score simple_nlp
     \<lparr>paragraphs = Some [\<lparr>para_text = ''I developed compilers for ten years'', style = None\<rparr>]\<rparr>
     ''Compiler engineer wanted now'' =
   Inr \<lparr>score = 100, details = None, experience_paragraphs_count = Some 1,
        relevance_score = Some 1\<rparr>"
proof -
  have "\<exists>keyword \<in> set experience_keywords.
          sublist keyword (lower ''I developed compilers for ten years'')"
    by code_simp
  then show ?thesis
    by (simp add: calculate_experience_score_def years_bert)
qed

lemma total_score_run:
  "\<exists>r. calculate_ats_score simple_nlp
          \<lparr>doc_text = ''I developed compilers for ten years'', metadata = None,
           structured_content =
             Some \<lparr>paragraphs =
                     Some [\<lparr>para_text = ''I developed compilers for ten years'',
                            style = None\<rparr>]\<rparr>\<rparr>
          ''Compiler engineer wanted now'' = Inr r
       \<and> 0 \<le> score (semantic_similarity (breakdown r))
       \<and> 0 \<le> score (experience_relevance (breakdown r))
       \<and> total_score r =
           round1 (score (keyword_match (breakdown r)) * 0.30 +
                   score (skill_match (breakdown r)) * 0.25 +
                   score (semantic_similarity (breakdown r)) * 0.20 +
                   score (experience_relevance (breakdown r)) * 0.15 +
                   score (formatting_quality (breakdown r)) * 0.10)
       \<and> 0 \<le> total_score r \<and> total_score r \<le> 100"
proof -
  let ?d = "\<lparr>doc_text = ''I developed compilers for ten years'', metadata = None,
           structured_content =
             Some \<lparr>paragraphs =
                     Some [\<lparr>para_text = ''I developed compilers for ten years'',
                            style = None\<rparr>]\<rparr>\<rparr>"
  let ?jd = "''Compiler engineer wanted now''"
  obtain k where k: "calculate_keyword_score simple_nlp (doc_text ?d) ?jd = Inr k"
    using keyword_score_ok [OF years_terms(1) years_terms(2)] by auto
  obtain t where t: "calculate_tfidf_similarity simple_nlp (doc_text ?d) ?jd = Inr t"
    using tfidf_similarity_ok [OF years_terms(3)] by (auto simp add: Let_def)
  obtain s where s: "calculate_semantic_score simple_nlp (doc_text ?d) ?jd = Inr s"
    and sv: "score s = similarity_score t * 100 * 0.4 + 1 * 100 * 0.6"
    using semantic_score_value [OF t] years_bert by auto
  have e: "calculate_experience_score simple_nlp (get_structured_content ?d) ?jd =
      Inr \<lparr>score = 100, details = None, experience_paragraphs_count = Some 1,
           relevance_score = Some 1\<rparr>"
    using years_experience by (simp add: get_structured_content_def)
  obtain r where r: "calculate_ats_score simple_nlp ?d ?jd = Inr r"
    using ats_score_ok [OF k s e] by auto
  note p = ats_score_parts [OF r]
  from p have "calculate_semantic_score simple_nlp (doc_text ?d) ?jd =
      Inr (semantic_similarity (breakdown r))" by simp
  with s have "semantic_similarity (breakdown r) = s" by (metis sum.inject(2))
  with sv tfidf_similarity_bounds [OF t]
  have sem: "0 \<le> score (semantic_similarity (breakdown r))" by simp
  from p have "calculate_experience_score simple_nlp (get_structured_content ?d) ?jd =
      Inr (experience_relevance (breakdown r))" by blast
  with e have "experience_relevance (breakdown r) =
      \<lparr>score = 100, details = None, experience_paragraphs_count = Some 1,
       relevance_score = Some 1\<rparr>"
    by (metis sum.inject(2))
  then have ex: "0 \<le> score (experience_relevance (breakdown r))" by simp
  from total_score_bounds [OF r] sem ex r show ?thesis by blast
qed

end
